theory Spec2Isabelle
  imports Main "HOL-Library.Char_ord" "HOL-Library.List_Lexorder" "HOL-Library.Option_ord"
begin

section \<open>Values shared by the whole service\<close>

text \<open>
  A \<open>time.Time\<close> is held as the number of nanoseconds since Go's zero instant, so
  \<open>IsZero\<close> is \<open>t = 0\<close>. Go strings are byte strings; \<open>sort.Strings\<close>, \<open>slices.Sort\<close>
  and SQLite's \<open>ORDER BY\<close> on a text column compare them bytewise, which is the
  lexicographic order on \<open>char list\<close>.
\<close>

type_synonym time = int

datatype error = ErrRecordNotFound | Err string

fun error_text :: "error \<Rightarrow> string" where
  "error_text ErrRecordNotFound = ''record not found''"
| "error_text (Err m) = m"

definition Errorf_w :: "string \<Rightarrow> error \<Rightarrow> error" where
  \<comment> \<open>\<open>fmt.Errorf(prefix + "%w", err)\<close>\<close>
  "Errorf_w prefix e = Err (prefix @ error_text e)"

text \<open>
  JSON text is held as the value it denotes. \<open>encoding/json\<close> writes the fields of a
  struct in declaration order, so an object is a list of pairs.
\<close>

datatype json =
    JBool bool
  | JInt int
  | JStr string
  | JTime time
  | JArr "json list"
  | JObj "(string \<times> json) list"

fun json_fields :: "json \<Rightarrow> string list" where
  "json_fields (JObj kvs) = map fst kvs"
| "json_fields _ = []"

fun digits :: "nat \<Rightarrow> string" where
  "digits n = (if n < 10 then [''0123456789'' ! n]
               else digits (n div 10) @ [''0123456789'' ! (n mod 10)])"

declare digits.simps [simp del]

definition Sprintf_d :: "int \<Rightarrow> string" where
  \<comment> \<open>the verb \<open>%d\<close> applied to an \<open>int\<close>\<close>
  "Sprintf_d i = (if i < 0 then ''-'' @ digits (nat (- i)) else digits (nat i))"

definition Sprintf_d_string :: "string \<Rightarrow> string" where
  \<comment> \<open>the verb \<open>%d\<close> applied to a \<open>string\<close> operand: package \<open>fmt\<close> prints
      \<open>%!verb(type=value)\<close> for an operand of the wrong type\<close>
  "Sprintf_d_string s = ''%!d(string='' @ s @ '')''"

section \<open>The tables (models.go)\<close>

text \<open>
  One record per table row. The two \<open>StringList\<close> columns of a row hold the JSON
  value that \<open>StringList.Value\<close> writes. The \<open>Listener\<close> and \<open>Backend\<close> association
  fields of the rule structs are never loaded nor set by the handlers and stay zero.
\<close>

record Message =
  msg_ID :: nat
  msg_Event :: string
  msg_RequestID :: string
  msg_RequestPayload :: string
  msg_ResponsePayload :: json
  msg_ErrorMessage :: string
  msg_Success :: bool
  msg_Processed :: bool
  msg_Replied :: bool
  msg_RequestedAt :: "time option"
  msg_QueuedAt :: "time option"
  msg_ProcessedAt :: "time option"

record TLSCertificate =
  tls_ID :: string
  tls_Domain :: string
  tls_IsWildcard :: bool
  tls_Cert :: string
  tls_Key :: string
  tls_ExpiresAt :: time

record Listener =
  lst_ID :: string
  lst_Protocol :: string
  lst_IP :: string
  lst_Port :: int
  lst_IsTLS :: bool

record Backend =
  bk_ID :: string
  bk_ResolverType :: string
  bk_DNSResolver :: string
  bk_Hosts :: json
  bk_Port :: int
  bk_IsTLS :: bool
  bk_SNIDomain :: string

record IngressRule =
  ir_ID :: string
  ir_Priority :: int
  ir_ListenerID :: string
  ir_BackendID :: string
  ir_Domain :: string
  ir_RoutePrefix :: string
  ir_AllowedCIDRs :: json
  ir_DeniedCIDRs :: json

record HTTPRedirectRule =
  rr_ID :: string
  rr_Priority :: int
  rr_ListenerID :: string
  rr_Domain :: string
  rr_PathPrefix :: string
  rr_IsHttpsRedirect :: bool
  rr_SchemeRedirect :: string
  rr_HostRedirect :: string
  rr_PathRedirect :: string
  rr_StatusCode :: int

definition HTTP :: string where "HTTP = ''http''"
definition TCP :: string where "TCP = ''tcp''"
definition STATIC_RESOLVER :: string where "STATIC_RESOLVER = ''static''"
definition DNS_RESOLVER :: string where "DNS_RESOLVER = ''dns''"

text \<open>
  The \<open>default:\<close> tags of models.go: on \<open>Create\<close>, gorm writes the tag's value for a
  field that holds its zero value and sets the struct field to it. Only the tags whose
  default differs from the zero value change anything.
\<close>

definition Listener_defaults :: "Listener \<Rightarrow> Listener" where
  "Listener_defaults l =
     l\<lparr>lst_Protocol := (if lst_Protocol l = [] then ''http'' else lst_Protocol l),
       lst_IP := (if lst_IP l = [] then ''0.0.0.0'' else lst_IP l),
       lst_Port := (if lst_Port l = 0 then 80 else lst_Port l)\<rparr>"

definition Backend_defaults :: "Backend \<Rightarrow> Backend" where
  "Backend_defaults b =
     b\<lparr>bk_ResolverType := (if bk_ResolverType b = [] then ''static'' else bk_ResolverType b)\<rparr>"

definition IngressRule_defaults :: "IngressRule \<Rightarrow> IngressRule" where
  "IngressRule_defaults r =
     r\<lparr>ir_RoutePrefix := (if ir_RoutePrefix r = [] then ''/'' else ir_RoutePrefix r)\<rparr>"

definition HTTPRedirectRule_defaults :: "HTTPRedirectRule \<Rightarrow> HTTPRedirectRule" where
  "HTTPRedirectRule_defaults r =
     r\<lparr>rr_PathPrefix := (if rr_PathPrefix r = [] then ''/'' else rr_PathPrefix r),
       rr_StatusCode := (if rr_StatusCode r = 0 then 301 else rr_StatusCode r)\<rparr>"

section \<open>The datastore\<close>

text \<open>
  The store is the six tables, each in insertion order, together with what the
  environment decides: \<open>faults\<close> lists, call by call, whether the next datastore call
  fails and with which driver message (an exhausted list means no further failure), and
  \<open>uuids\<close> with \<open>uuid_next\<close> is the stream that \<open>uuid.NewString\<close> reads.
\<close>

record db =
  messages :: "Message list"
  tls_certificates :: "TLSCertificate list"
  listeners :: "Listener list"
  backends :: "Backend list"
  ingress_rules :: "IngressRule list"
  http_redirect_rules :: "HTTPRedirectRule list"
  faults :: "string option list"
  uuids :: "nat \<Rightarrow> string"
  uuid_next :: nat

definition db_call :: "db \<Rightarrow> string option \<times> db" where
  "db_call d = (case faults d of [] \<Rightarrow> (None, d) | f # fs \<Rightarrow> (f, d\<lparr>faults := fs\<rparr>))"

definition uuid_NewString :: "db \<Rightarrow> string \<times> db" where
  "uuid_NewString d = (uuids d (uuid_next d), d\<lparr>uuid_next := Suc (uuid_next d)\<rparr>)"

definition gorm_First ::
  "('r \<Rightarrow> 'k::linorder) \<Rightarrow> ('r \<Rightarrow> bool) \<Rightarrow> 'r list \<Rightarrow> db \<Rightarrow> (error + 'r) \<times> db" where
  \<comment> \<open>\<open>Where(p).First(&row)\<close>: the matching row with the least primary key\<close>
  "gorm_First key p rows d =
     (case db_call d of
        (Some m, d') \<Rightarrow> (Inl (Err m), d')
      | (None, d') \<Rightarrow>
          (case find p (sort_key key rows) of
             None \<Rightarrow> (Inl ErrRecordNotFound, d')
           | Some r \<Rightarrow> (Inr r, d')))"

definition gorm_Create ::
  "('r \<Rightarrow> 'k) \<Rightarrow> 'r \<Rightarrow> 'r list \<Rightarrow> db \<Rightarrow> error option \<times> 'r list \<times> db" where
  \<comment> \<open>\<open>Create(&row)\<close>: an insert, refused when the primary key is taken\<close>
  "gorm_Create key r rows d =
     (case db_call d of
        (Some m, d') \<Rightarrow> (Some (Err m), rows, d')
      | (None, d') \<Rightarrow>
          if key r \<in> set (map key rows)
          then (Some (Err ''UNIQUE constraint failed''), rows, d')
          else (None, rows @ [r], d'))"

definition gorm_Save ::
  "('r \<Rightarrow> 'k) \<Rightarrow> 'r \<Rightarrow> 'r list \<Rightarrow> db \<Rightarrow> error option \<times> 'r list \<times> db" where
  \<comment> \<open>\<open>Save(&row)\<close>: an update of every column of the row with that primary key, and an
      insert when no row has it\<close>
  "gorm_Save key r rows d =
     (case db_call d of
        (Some m, d') \<Rightarrow> (Some (Err m), rows, d')
      | (None, d') \<Rightarrow>
          if key r \<in> set (map key rows)
          then (None, map (\<lambda>x. if key x = key r then r else x) rows, d')
          else (None, rows @ [r], d'))"

definition gorm_Delete ::
  "('r \<Rightarrow> bool) \<Rightarrow> 'r list \<Rightarrow> db \<Rightarrow> error option \<times> 'r list \<times> db" where
  \<comment> \<open>\<open>Where(p).Delete(&Model{})\<close>\<close>
  "gorm_Delete p rows d =
     (case db_call d of
        (Some m, d') \<Rightarrow> (Some (Err m), rows, d')
      | (None, d') \<Rightarrow> (None, filter (\<lambda>x. \<not> p x) rows, d'))"

definition SQLITE_MAX_VARIABLE_NUMBER :: nat where
  \<comment> \<open>the most host parameters one statement may have in the SQLite that
      \<open>go-sqlite3 v1.14.22\<close> (go.mod) is built with\<close>
  "SQLITE_MAX_VARIABLE_NUMBER = 32766"

definition gorm_Delete_NotIn ::
  "('r \<Rightarrow> string) \<Rightarrow> string list \<Rightarrow> 'r list \<Rightarrow> db \<Rightarrow> error option \<times> 'r list \<times> db" where
  \<comment> \<open>\<open>Where("id NOT IN (?)", ids).Delete(&Model{})\<close>: gorm expands the slice into one
      bound variable per element, and SQLite refuses a statement that has too many\<close>
  "gorm_Delete_NotIn key ids rows d =
     (case db_call d of
        (Some m, d') \<Rightarrow> (Some (Err m), rows, d')
      | (None, d') \<Rightarrow>
          if length ids > SQLITE_MAX_VARIABLE_NUMBER
          then (Some (Err ''too many SQL variables''), rows, d')
          else (None, filter (\<lambda>x. key x \<in> set ids) rows, d'))"

definition gorm_Pluck :: "('r \<Rightarrow> 'c) \<Rightarrow> 'r list \<Rightarrow> db \<Rightarrow> (error + 'c list) \<times> db" where
  \<comment> \<open>\<open>Model(&Model{}).Pluck(column, &dest)\<close>\<close>
  "gorm_Pluck col rows d =
     (case db_call d of
        (Some m, d') \<Rightarrow> (Inl (Err m), d')
      | (None, d') \<Rightarrow> (Inr (map col rows), d'))"

section \<open>Identifiers and listeners (handler.go)\<close>

definition getListenerID :: "string \<Rightarrow> int \<Rightarrow> string" where
  "getListenerID bindIP port = bindIP @ '':'' @ Sprintf_d port"

definition isListenerExist :: "db \<Rightarrow> string \<Rightarrow> (error + bool) \<times> db" where
  "isListenerExist d i =
     (case gorm_First lst_ID (\<lambda>l. lst_ID l = i) (listeners d) d of
        (Inr l, d') \<Rightarrow> (Inr True, d')
      | (Inl ErrRecordNotFound, d') \<Rightarrow> (Inr False, d')
      | (Inl (Err m), d') \<Rightarrow> (Inl (Err m), d'))"

definition getListenerByID :: "db \<Rightarrow> string \<Rightarrow> (error + Listener) \<times> db" where
  "getListenerByID d i = gorm_First lst_ID (\<lambda>l. lst_ID l = i) (listeners d) d"

definition release_hint :: string where
  "release_hint = ''remove existing ingress / redirect rules to release the listener''"

definition upsertListener ::
  "db \<Rightarrow> string \<Rightarrow> int \<Rightarrow> string \<Rightarrow> bool \<Rightarrow> (error + Listener) \<times> db" where
  "upsertListener d bindIP port protocol isTLS =
     (let i = getListenerID bindIP port in
      case isListenerExist d i of
        (Inl e, d1) \<Rightarrow> (Inl e, d1)
      | (Inr True, d1) \<Rightarrow>
          (case getListenerByID d1 i of
             (Inl e, d2) \<Rightarrow> (Inl e, d2)
           | (Inr listener, d2) \<Rightarrow>
               if lst_Protocol listener \<noteq> protocol
               then (Inl (Err (''listener registered on '' @ i @ '' is using ''
                       @ lst_Protocol listener
                       @ '' protocol, but currently requesting the same listener for ''
                       @ protocol @ '' protocol. '' @ release_hint)), d2)
               else if lst_IsTLS listener \<noteq> isTLS
               then (if lst_IsTLS listener
                     then (Inl (Err (''listener registered on '' @ i
                             @ '' is using TLS, but currently requesting the same listener for non-TLS. ''
                             @ release_hint)), d2)
                     else (Inl (Err (''listener registered on '' @ i
                             @ '' is using non-TLS, but currently requesting the same listener for TLS. ''
                             @ release_hint)), d2))
               else (Inr listener, d2))
      | (Inr False, d1) \<Rightarrow>
          (let listener = Listener_defaults
                 \<lparr>lst_ID = i, lst_Protocol = protocol, lst_IP = bindIP,
                  lst_Port = port, lst_IsTLS = isTLS\<rparr> in
           case gorm_Create lst_ID listener (listeners d1) d1 of
             (Some e, rows, d2) \<Rightarrow> (Inl e, d2\<lparr>listeners := rows\<rparr>)
           | (None, rows, d2) \<Rightarrow> (Inr listener, d2\<lparr>listeners := rows\<rparr>)))"

section \<open>HTTP redirect rules (handler.go)\<close>

definition getHTTPRedirectRuleID :: "string \<Rightarrow> string \<Rightarrow> string \<Rightarrow> bool \<Rightarrow> string" where
  \<comment> \<open>\<open>fmt.Sprintf("http:%s:%s:%s:%d", listenerID, domain, routePrefix, redirectType)\<close>
      with \<open>redirectType\<close> a string\<close>
  "getHTTPRedirectRuleID listenerID domain routePrefix isHTTPSRedirect =
     (let redirectType = (if \<not> isHTTPSRedirect then ''other'' else ''https'') in
      ''http:'' @ listenerID @ '':'' @ domain @ '':'' @ routePrefix @ '':''
        @ Sprintf_d_string redirectType)"

definition findHTTPRedirectRule ::
  "db \<Rightarrow> string \<Rightarrow> string \<Rightarrow> string \<Rightarrow> bool \<Rightarrow> (error + HTTPRedirectRule option) \<times> db" where
  "findHTTPRedirectRule d listenerID domain routePrefix isHTTPSRedirect =
     (let i = getHTTPRedirectRuleID listenerID domain routePrefix isHTTPSRedirect in
      case gorm_First rr_ID (\<lambda>r. rr_ID r = i) (http_redirect_rules d) d of
        (Inr r, d') \<Rightarrow> (Inr (Some r), d')
      | (Inl ErrRecordNotFound, d') \<Rightarrow> (Inr None, d')
      | (Inl (Err m), d') \<Rightarrow> (Inl (Err m), d'))"

definition upsertHTTPRedirectRule ::
  "db \<Rightarrow> string \<Rightarrow> string \<Rightarrow> string \<Rightarrow> bool \<Rightarrow> string \<Rightarrow> string \<Rightarrow> string \<Rightarrow> int \<Rightarrow> int
     \<Rightarrow> (error + HTTPRedirectRule) \<times> db" where
  "upsertHTTPRedirectRule d listenerID domain routePrefix isHttpsRedirect schemeRedirect
       hostRedirect pathRedirect statusCode0 priority =
     (case findHTTPRedirectRule d listenerID domain routePrefix isHttpsRedirect of
        (Inl e, d1) \<Rightarrow> (Inl e, d1)
      | (Inr found, d1) \<Rightarrow>
          (let statusCode = (if statusCode0 = 0 then 301 else statusCode0) in
           case found of
             Some redirectRule \<Rightarrow>
               (let updated = redirectRule
                      \<lparr>rr_IsHttpsRedirect := isHttpsRedirect,
                       rr_SchemeRedirect := schemeRedirect,
                       rr_HostRedirect := hostRedirect,
                       rr_PathRedirect := pathRedirect,
                       rr_StatusCode := statusCode\<rparr> in
                case gorm_Save rr_ID updated (http_redirect_rules d1) d1 of
                  (Some e, rows, d2) \<Rightarrow> (Inl e, d2\<lparr>http_redirect_rules := rows\<rparr>)
                | (None, rows, d2) \<Rightarrow> (Inr updated, d2\<lparr>http_redirect_rules := rows\<rparr>))
           | None \<Rightarrow>
               (let created = HTTPRedirectRule_defaults
                      \<lparr>rr_ID = getHTTPRedirectRuleID listenerID domain routePrefix isHttpsRedirect,
                       rr_Priority = priority,
                       rr_ListenerID = listenerID,
                       rr_Domain = domain,
                       rr_PathPrefix = routePrefix,
                       rr_IsHttpsRedirect = isHttpsRedirect,
                       rr_SchemeRedirect = schemeRedirect,
                       rr_HostRedirect = hostRedirect,
                       rr_PathRedirect = pathRedirect,
                       rr_StatusCode = statusCode\<rparr> in
                case gorm_Create rr_ID created (http_redirect_rules d1) d1 of
                  (Some e, rows, d2) \<Rightarrow> (Inl e, d2\<lparr>http_redirect_rules := rows\<rparr>)
                | (None, rows, d2) \<Rightarrow> (Inr created, d2\<lparr>http_redirect_rules := rows\<rparr>))))"

definition deleteHTTPRedirectRule ::
  "db \<Rightarrow> string \<Rightarrow> string \<Rightarrow> string \<Rightarrow> bool \<Rightarrow> error option \<times> db" where
  "deleteHTTPRedirectRule d listenerID domain routePrefix isHTTPSRedirect =
     (let i = getHTTPRedirectRuleID listenerID domain routePrefix isHTTPSRedirect in
      case gorm_Delete (\<lambda>r. rr_ID r = i) (http_redirect_rules d) d of
        (e, rows, d') \<Rightarrow> (e, d'\<lparr>http_redirect_rules := rows\<rparr>))"

section \<open>Requests (event payloads) and what the libraries decide\<close>

record CommonEventParamsV1 =
  RequestID :: string
  RequestedAt :: time

record TLSCertificateUpsertV1 = CommonEventParamsV1 +
  tu_IsWildcard :: bool
  tu_Domain :: string
  tu_Cert :: string
  tu_Key :: string

record TLSCertificateDeleteV1 = CommonEventParamsV1 +
  td_Domain :: string
  td_IsWildcard :: bool

record IngressRuleUpsertV1 = CommonEventParamsV1 +
  iu_Priority :: int
  iu_BindIP :: string
  iu_Port :: int
  iu_Protocol :: string
  iu_IsTLS :: bool
  iu_Domain :: string
  iu_RoutePrefix :: string
  iu_AllowedCIDRs :: "string list"
  iu_DeniedCIDRs :: "string list"
  iu_BackendResolver :: string
  iu_BackendDNSResolver :: string
  iu_BackendHosts :: "string list"
  iu_BackendPort :: int
  iu_BackendIsTLS :: bool
  iu_BackendSNIDomain :: string

record IngressRuleDeleteV1 = CommonEventParamsV1 +
  idl_BindIP :: string
  idl_Port :: int
  idl_Protocol :: string
  idl_Domain :: string
  idl_RoutePrefix :: string

record HTTPRedirectRuleUpsertV1 = CommonEventParamsV1 +
  ru_Priority :: int
  ru_BindIP :: string
  ru_Port :: int
  ru_IsTLS :: bool
  ru_Domain :: string
  ru_RoutePrefix :: string
  ru_IsHttpsRedirect :: bool
  ru_SchemeRedirect :: string
  ru_HostRedirect :: string
  ru_PathRedirect :: string
  ru_StatusCode :: int

record HTTPRedirectRuleDeleteV1 = CommonEventParamsV1 +
  rd_BindIP :: string
  rd_Port :: int
  rd_Domain :: string
  rd_RoutePrefix :: string
  rd_IsHttpsRedirect :: bool
  rd_SchemeRedirect :: string
  rd_HostRedirect :: string
  rd_PathRedirect :: string
  rd_StatusCode :: int

datatype request =
    ReqTLSCertificateUpsert TLSCertificateUpsertV1
  | ReqTLSCertificateDelete TLSCertificateDeleteV1
  | ReqIngressRuleUpsert IngressRuleUpsertV1
  | ReqIngressRuleDelete IngressRuleDeleteV1
  | ReqHTTPRedirectRuleUpsert HTTPRedirectRuleUpsertV1
  | ReqHTTPRedirectRuleDelete HTTPRedirectRuleDeleteV1

text \<open>
  What the imported packages compute is a parameter of the model: the IDNA lookup
  profile, \<open>strings.TrimSpace\<close>, \<open>net.ParseCIDR\<close>, the two certificate helpers (their
  bodies are calls into \<open>encoding/pem\<close> and \<open>crypto/x509\<close>), and \<open>json.Unmarshal\<close> into each
  of the six registered request types.
\<close>

record lib =
  idna_Lookup_ToASCII :: "string \<Rightarrow> error + string"
  strings_TrimSpace :: "string \<Rightarrow> string"
  IsValidCIDR :: "string \<Rightarrow> bool"
  ValidateCertAndKey :: "string \<Rightarrow> string \<Rightarrow> error option"
  getCertExpiry :: "string \<Rightarrow> error + time"
  Unmarshal_TLSCertificateUpsertV1 :: "string \<Rightarrow> error + TLSCertificateUpsertV1"
  Unmarshal_TLSCertificateDeleteV1 :: "string \<Rightarrow> error + TLSCertificateDeleteV1"
  Unmarshal_IngressRuleUpsertV1 :: "string \<Rightarrow> error + IngressRuleUpsertV1"
  Unmarshal_IngressRuleDeleteV1 :: "string \<Rightarrow> error + IngressRuleDeleteV1"
  Unmarshal_HTTPRedirectRuleUpsertV1 :: "string \<Rightarrow> error + HTTPRedirectRuleUpsertV1"
  Unmarshal_HTTPRedirectRuleDeleteV1 :: "string \<Rightarrow> error + HTTPRedirectRuleDeleteV1"

section \<open>Validation helpers\<close>

definition labelRE_MatchString :: "string \<Rightarrow> bool" where
  \<comment> \<open>\<open>^[a-z0-9](?:[a-z0-9-]{0,61}[a-z0-9])?$\<close>\<close>
  "labelRE_MatchString p =
     (p \<noteq> [] \<and> length p \<le> 63
      \<and> hd p \<in> set ''abcdefghijklmnopqrstuvwxyz0123456789''
      \<and> last p \<in> set ''abcdefghijklmnopqrstuvwxyz0123456789''
      \<and> list_all (\<lambda>c. c \<in> set ''abcdefghijklmnopqrstuvwxyz0123456789-'') p)"

fun Split_dot :: "string \<Rightarrow> string list" where
  \<comment> \<open>\<open>strings.Split(s, ".")\<close>\<close>
  "Split_dot [] = [[]]"
| "Split_dot (c # cs) =
     (if c = CHR ''.'' then [] # Split_dot cs
      else (case Split_dot cs of p # ps \<Rightarrow> (c # p) # ps | [] \<Rightarrow> [[c]]))"

fun Contains_dotdot :: "string \<Rightarrow> bool" where
  \<comment> \<open>\<open>strings.Contains(s, "..")\<close>\<close>
  "Contains_dotdot (a # b # cs) = ((a = CHR ''.'' \<and> b = CHR ''.'') \<or> Contains_dotdot (b # cs))"
| "Contains_dotdot _ = False"

fun validate_labels :: "string list \<Rightarrow> error option" where
  \<comment> \<open>the loop over \<open>parts\<close> in \<open>validateDomain\<close>\<close>
  "validate_labels [] = None"
| "validate_labels (p # ps) =
     (if length p = 0 then Some (Err ''empty label'')
      else if CHR ''_'' \<in> set p then Some (Err ''underscores are not allowed in labels'')
      else if \<not> labelRE_MatchString p then Some (Err (''invalid label: '' @ p))
      else validate_labels ps)"

definition validateDomain :: "lib \<Rightarrow> string \<Rightarrow> error option" where
  \<comment> \<open>\<open>None\<close> is the return \<open>(true, nil)\<close>, \<open>Some e\<close> is \<open>(false, e)\<close>\<close>
  "validateDomain L s =
     (case idna_Lookup_ToASCII L s of
        Inl e \<Rightarrow> Some (Err (''invalid IDN: '' @ error_text e))
      | Inr ascii \<Rightarrow>
          if length ascii > 253 then Some (Err ''domain exceeds 253 characters'')
          else if Contains_dotdot ascii \<or> take 1 ascii = ''.''
                  \<or> (ascii \<noteq> [] \<and> last ascii = CHR ''.'')
          then Some (Err ''labels must be separated by a single dot'')
          else validate_labels (Split_dot ascii))"

definition IsValidDomain :: "lib \<Rightarrow> string \<Rightarrow> error option" where
  "IsValidDomain L s0 =
     (let s1 = strings_TrimSpace L s0 in
      if s1 = [] then Some (Err ''empty domain'')
      else if s1 = ''.'' then Some (Err (''root domain '' @ [CHR 0x27] @ ''.'' @ [CHR 0x27] @ '' is not allowed''))
      else if last s1 = CHR ''.'' \<and> butlast s1 = []
      then Some (Err ''domain cannot be only a trailing dot'')
      else
        (let s = (if last s1 = CHR ''.'' then butlast s1 else s1) in
         if s = ''*'' then None
         else if take 2 s = ''*.''
         then (let rest = drop 2 s in
               if rest = [] then Some (Err ([CHR 0x27] @ ''*.'' @ [CHR 0x27] @ '' must be followed by a domain''))
               else validateDomain L rest)
         else validateDomain L s))"

section \<open>JSON replies\<close>

definition marshal_zero_Listener :: json where
  "marshal_zero_Listener =
     JObj [(''id'', JStr []), (''protocol'', JStr []), (''ip'', JStr []),
           (''port'', JInt 0), (''is_tls'', JBool False)]"

definition marshal_zero_Backend :: json where
  \<comment> \<open>\<open>dns_resolver\<close> and \<open>sni_domain\<close> are \<open>omitempty\<close>; a nil \<open>StringList\<close> marshals as \<open>[]\<close>\<close>
  "marshal_zero_Backend =
     JObj [(''id'', JStr []), (''resolver_type'', JStr []), (''hosts'', JArr []),
           (''port'', JInt 0), (''is_tls'', JBool False)]"

definition omitempty_string :: "string \<Rightarrow> string \<Rightarrow> (string \<times> json) list" where
  "omitempty_string name v = (if v = [] then [] else [(name, JStr v)])"

definition omitempty_StringList :: "string \<Rightarrow> json \<Rightarrow> (string \<times> json) list" where
  "omitempty_StringList name col = (if col = JArr [] then [] else [(name, col)])"

definition marshal_TLSCertificate :: "TLSCertificate \<Rightarrow> json" where
  \<comment> \<open>the field \<open>Key\<close> carries the tag \<open>json:"-"\<close>\<close>
  "marshal_TLSCertificate c =
     JObj [(''id'', JStr (tls_ID c)), (''domain'', JStr (tls_Domain c)),
           (''is_wildcard'', JBool (tls_IsWildcard c)), (''cert'', JStr (tls_Cert c)),
           (''expires_at'', JTime (tls_ExpiresAt c))]"

definition marshal_IngressRule :: "IngressRule \<Rightarrow> json" where
  "marshal_IngressRule r =
     JObj ([(''id'', JStr (ir_ID r)), (''priority'', JInt (ir_Priority r)),
            (''listener_id'', JStr (ir_ListenerID r)), (''backend_id'', JStr (ir_BackendID r)),
            (''listener'', marshal_zero_Listener), (''backend'', marshal_zero_Backend)]
           @ omitempty_string ''domain'' (ir_Domain r)
           @ [(''route_prefix'', JStr (ir_RoutePrefix r))]
           @ omitempty_StringList ''allowed_cidrs'' (ir_AllowedCIDRs r)
           @ omitempty_StringList ''denied_cidrs'' (ir_DeniedCIDRs r))"

definition marshal_HTTPRedirectRule :: "HTTPRedirectRule \<Rightarrow> json" where
  "marshal_HTTPRedirectRule r =
     JObj ([(''id'', JStr (rr_ID r)), (''priority'', JInt (rr_Priority r)),
            (''listener_id'', JStr (rr_ListenerID r)), (''listener'', marshal_zero_Listener)]
           @ omitempty_string ''domain'' (rr_Domain r)
           @ [(''path_prefix'', JStr (rr_PathPrefix r)),
              (''is_https_redirect'', JBool (rr_IsHttpsRedirect r))]
           @ omitempty_string ''scheme_redirect'' (rr_SchemeRedirect r)
           @ omitempty_string ''host_redirect'' (rr_HostRedirect r)
           @ omitempty_string ''path_redirect'' (rr_PathRedirect r)
           @ [(''status_code'', JInt (rr_StatusCode r))])"

section \<open>TLS certificates (handler.go)\<close>

definition getTLSCertificateID :: "string \<Rightarrow> bool \<Rightarrow> string" where
  "getTLSCertificateID domain isWildCard = (if isWildCard then ''*.'' @ domain else domain)"

definition isTLSCertificateExist :: "db \<Rightarrow> string \<Rightarrow> (error + bool) \<times> db" where
  "isTLSCertificateExist d i =
     (case gorm_First tls_ID (\<lambda>c. tls_ID c = i) (tls_certificates d) d of
        (Inr c, d') \<Rightarrow> (Inr True, d')
      | (Inl ErrRecordNotFound, d') \<Rightarrow> (Inr False, d')
      | (Inl (Err m), d') \<Rightarrow> (Inl (Err m), d'))"

fun ReplaceAll_escaped_newline :: "string \<Rightarrow> string" where
  \<comment> \<open>\<open>strings.ReplaceAll(s, "\\n", "\n")\<close>: backslash followed by \<open>n\<close> becomes a line feed\<close>
  "ReplaceAll_escaped_newline (a # b # cs) =
     (if a = CHR 0x5C \<and> b = CHR ''n'' then CHR 0x0A # ReplaceAll_escaped_newline cs
      else a # ReplaceAll_escaped_newline (b # cs))"
| "ReplaceAll_escaped_newline cs = cs"

definition ensure_trailing_newline :: "string \<Rightarrow> string" where
  \<comment> \<open>\<open>if !strings.HasSuffix(s, "\n") { s += "\n" }\<close>\<close>
  "ensure_trailing_newline s = (if s \<noteq> [] \<and> last s = CHR 0x0A then s else s @ [CHR 0x0A])"

definition TLSCertificateUpsertV1_Process ::
  "lib \<Rightarrow> db \<Rightarrow> TLSCertificateUpsertV1 \<Rightarrow> (error + json option) \<times> db" where
  "TLSCertificateUpsertV1_Process L d r =
     (if tu_Domain r = [] then (Inl (Err ''domain is required''), d)
      else if tu_Cert r = [] \<or> tu_Key r = [] then (Inl (Err ''cert and key are required''), d)
      else
        (let cert = ensure_trailing_newline (ReplaceAll_escaped_newline (tu_Cert r));
             key = ensure_trailing_newline (ReplaceAll_escaped_newline (tu_Key r));
             i = getTLSCertificateID (tu_Domain r) (tu_IsWildcard r) in
         case isTLSCertificateExist d i of
           (Inl e, d1) \<Rightarrow> (Inl e, d1)
         | (Inr isExist, d1) \<Rightarrow>
             (case ValidateCertAndKey L cert key of
                Some e \<Rightarrow> (Inl e, d1)
              | None \<Rightarrow>
                  (case getCertExpiry L cert of
                     Inl e \<Rightarrow> (Inl e, d1)
                   | Inr certExpiry \<Rightarrow>
                       (let certificateRecord =
                              \<lparr>tls_ID = i, tls_Domain = tu_Domain r,
                               tls_IsWildcard = tu_IsWildcard r, tls_Cert = cert,
                               tls_Key = key, tls_ExpiresAt = certExpiry\<rparr> in
                        \<comment> \<open>\<open>err = db.Save(..).Error\<close> or \<open>err = db.Create(..).Error\<close>; the next
                            statement, \<open>jsonStr, err := json.Marshal(..)\<close>, assigns \<open>err\<close> anew\<close>
                        case (if isExist
                              then gorm_Save tls_ID certificateRecord (tls_certificates d1) d1
                              else gorm_Create tls_ID certificateRecord (tls_certificates d1) d1) of
                          (err, rows, d2) \<Rightarrow>
                            (Inr (Some (marshal_TLSCertificate certificateRecord)),
                             d2\<lparr>tls_certificates := rows\<rparr>))))))"

definition TLSCertificateDeleteV1_Process ::
  "lib \<Rightarrow> db \<Rightarrow> TLSCertificateDeleteV1 \<Rightarrow> (error + json option) \<times> db" where
  "TLSCertificateDeleteV1_Process L d r =
     (let i = getTLSCertificateID (td_Domain r) (td_IsWildcard r) in
      case isTLSCertificateExist d i of
        (Inl e, d1) \<Rightarrow> (Inl e, d1)
      | (Inr False, d1) \<Rightarrow> (Inr None, d1)
      | (Inr True, d1) \<Rightarrow>
          (case gorm_Delete (\<lambda>c. tls_ID c = i) (tls_certificates d1) d1 of
             (Some e, rows, d2) \<Rightarrow> (Inl e, d2\<lparr>tls_certificates := rows\<rparr>)
           | (None, rows, d2) \<Rightarrow> (Inr None, d2\<lparr>tls_certificates := rows\<rparr>)))"

section \<open>Backends and ingress rules (handler.go)\<close>

definition StringList_Value :: "string list \<Rightarrow> json" where
  \<comment> \<open>\<open>StringList.Value\<close>: \<open>"[]"\<close> for an empty list, else the JSON array of a sorted copy\<close>
  "StringList_Value s = (if length s = 0 then JArr [] else JArr (map JStr (sort s)))"

definition findBackend ::
  "db \<Rightarrow> string \<Rightarrow> string \<Rightarrow> string list \<Rightarrow> int \<Rightarrow> bool \<Rightarrow> string
     \<Rightarrow> (error + Backend option) \<times> db" where
  "findBackend d resolverType dnsResolver hosts port isTLS sniDomain =
     (let hostsValue = StringList_Value hosts in
      case gorm_First bk_ID
             (\<lambda>b. bk_ResolverType b = resolverType \<and> bk_DNSResolver b = dnsResolver
                   \<and> bk_Hosts b = hostsValue \<and> bk_Port b = port \<and> bk_IsTLS b = isTLS
                   \<and> bk_SNIDomain b = sniDomain)
             (backends d) d of
        (Inr b, d') \<Rightarrow> (Inr (Some b), d')
      | (Inl ErrRecordNotFound, d') \<Rightarrow> (Inr None, d')
      | (Inl (Err m), d') \<Rightarrow> (Inl (Err m), d'))"

definition upsertBackend ::
  "db \<Rightarrow> string \<Rightarrow> string \<Rightarrow> string list \<Rightarrow> int \<Rightarrow> bool \<Rightarrow> string
     \<Rightarrow> (error + Backend) \<times> db" where
  "upsertBackend d resolverType dnsResolver hosts port isTLS sniDomain =
     (case findBackend d resolverType dnsResolver hosts port isTLS sniDomain of
        (Inl e, d1) \<Rightarrow> (Inl e, d1)
      | (Inr (Some backend), d1) \<Rightarrow> (Inr backend, d1)
      | (Inr None, d1) \<Rightarrow>
          (case uuid_NewString d1 of
             (u, d2) \<Rightarrow>
               (let backend = Backend_defaults
                      \<lparr>bk_ID = u, bk_ResolverType = resolverType, bk_DNSResolver = dnsResolver,
                       bk_Hosts = StringList_Value hosts, bk_Port = port, bk_IsTLS = isTLS,
                       bk_SNIDomain = sniDomain\<rparr> in
                case gorm_Create bk_ID backend (backends d2) d2 of
                  (Some e, rows, d3) \<Rightarrow> (Inl e, d3\<lparr>backends := rows\<rparr>)
                | (None, rows, d3) \<Rightarrow> (Inr backend, d3\<lparr>backends := rows\<rparr>))))"

definition getIngressRuleID :: "string \<Rightarrow> string \<Rightarrow> string \<Rightarrow> string \<Rightarrow> string" where
  "getIngressRuleID protocol listenerID domain routePrefix =
     (if protocol = TCP then ''tcp:'' @ listenerID
      else ''http:'' @ listenerID @ '':'' @ domain @ '':'' @ routePrefix)"

definition findIngressRule ::
  "db \<Rightarrow> string \<Rightarrow> string \<Rightarrow> string \<Rightarrow> string \<Rightarrow> (error + IngressRule option) \<times> db" where
  "findIngressRule d protocol listenerID domain routePrefix =
     (let i = getIngressRuleID protocol listenerID domain routePrefix in
      case gorm_First ir_ID (\<lambda>r. ir_ID r = i) (ingress_rules d) d of
        (Inr r, d') \<Rightarrow> (Inr (Some r), d')
      | (Inl ErrRecordNotFound, d') \<Rightarrow> (Inr None, d')
      | (Inl (Err m), d') \<Rightarrow> (Inl (Err m), d'))"

definition upsertIngressRule ::
  "db \<Rightarrow> string \<Rightarrow> string \<Rightarrow> string \<Rightarrow> string \<Rightarrow> string \<Rightarrow> string list \<Rightarrow> string list \<Rightarrow> int
     \<Rightarrow> (error + IngressRule) \<times> db" where
  "upsertIngressRule d protocol listenerID domain routePrefix backendID allowedCIDRs
       deniedCIDRs priority =
     (case findIngressRule d protocol listenerID domain routePrefix of
        (Inl e, d1) \<Rightarrow> (Inl e, d1)
      | (Inr (Some ingressRule), d1) \<Rightarrow>
          (let updated = ingressRule
                 \<lparr>ir_BackendID := backendID,
                  ir_AllowedCIDRs := StringList_Value allowedCIDRs,
                  ir_DeniedCIDRs := StringList_Value deniedCIDRs,
                  ir_Priority := priority\<rparr> in
           case gorm_Save ir_ID updated (ingress_rules d1) d1 of
             (Some e, rows, d2) \<Rightarrow> (Inl e, d2\<lparr>ingress_rules := rows\<rparr>)
           | (None, rows, d2) \<Rightarrow> (Inr updated, d2\<lparr>ingress_rules := rows\<rparr>))
      | (Inr None, d1) \<Rightarrow>
          (let created = IngressRule_defaults
                 \<lparr>ir_ID = getIngressRuleID protocol listenerID domain routePrefix,
                  ir_Priority = priority,
                  ir_ListenerID = listenerID,
                  ir_BackendID = backendID,
                  ir_Domain = domain,
                  ir_RoutePrefix = routePrefix,
                  ir_AllowedCIDRs = StringList_Value allowedCIDRs,
                  ir_DeniedCIDRs = StringList_Value deniedCIDRs\<rparr> in
           case gorm_Create ir_ID created (ingress_rules d1) d1 of
             (Some e, rows, d2) \<Rightarrow> (Inl e, d2\<lparr>ingress_rules := rows\<rparr>)
           | (None, rows, d2) \<Rightarrow> (Inr created, d2\<lparr>ingress_rules := rows\<rparr>)))"

definition deleteIngressRule ::
  "db \<Rightarrow> string \<Rightarrow> string \<Rightarrow> string \<Rightarrow> string \<Rightarrow> error option \<times> db" where
  "deleteIngressRule d protocol listenerID domain routePrefix =
     (let i = getIngressRuleID protocol listenerID domain routePrefix in
      case gorm_Delete (\<lambda>r. ir_ID r = i) (ingress_rules d) d of
        (e, rows, d') \<Rightarrow> (e, d'\<lparr>ingress_rules := rows\<rparr>))"

section \<open>The handlers of the rule events (handler.go)\<close>

definition IngressRuleUpsertV1_Process ::
  "lib \<Rightarrow> db \<Rightarrow> IngressRuleUpsertV1 \<Rightarrow> (error + json option) \<times> db" where
  "IngressRuleUpsertV1_Process L d r =
     (if iu_BindIP r \<noteq> ''0.0.0.0''
      then (Inl (Err ''currently only 0.0.0.0 is supported for bind_ip''), d)
      else if iu_Port r \<le> 0 \<or> iu_Port r > 65535
      then (Inl (Err ''port is required and must be between 1 and 65535''), d)
      else if (iu_Protocol r = HTTP \<or> iu_IsTLS r) \<and> iu_Domain r = []
      then (Inl (Err ''domain is required for HTTP protocol''), d)
      else
        (case (if iu_Protocol r = HTTP \<or> iu_IsTLS r then validateDomain L (iu_Domain r)
               else None) of
           Some e \<Rightarrow> (Inl (Errorf_w ''invalid domain: '' e), d)
         | None \<Rightarrow>
             (let routePrefix = (if iu_Protocol r = HTTP \<and> iu_RoutePrefix r = [] then ''/''
                                 else iu_RoutePrefix r) in
              if length (iu_BackendHosts r) = 0
              then (Inl (Err ''at least one backend host is required''), d)
              else if iu_BackendResolver r = DNS_RESOLVER \<and> iu_BackendDNSResolver r = []
              then (Inl (Err ''backend_dns_resolver is required for DNS resolver''), d)
              else
                (case find (\<lambda>cidr. \<not> IsValidCIDR L cidr) (iu_AllowedCIDRs r) of
                   Some cidr \<Rightarrow>
                     (Inl (Err (''invalid cidr: '' @ cidr @ '' in allowed_cidrs list'')), d)
                 | None \<Rightarrow>
                     (case find (\<lambda>cidr. \<not> IsValidCIDR L cidr) (iu_DeniedCIDRs r) of
                        Some cidr \<Rightarrow>
                          (Inl (Err (''invalid cidr: '' @ cidr @ '' in denied_cidrs list'')), d)
                      | None \<Rightarrow>
                          (case upsertListener d (iu_BindIP r) (iu_Port r) (iu_Protocol r)
                                  (iu_IsTLS r) of
                             (Inl e, d1) \<Rightarrow> (Inl (Errorf_w ''failed to upsert listener: '' e), d1)
                           | (Inr listener, d1) \<Rightarrow>
                               \<comment> \<open>the TLS argument is \<open>r.IsTLS\<close>; \<open>r.BackendIsTLS\<close> is not read\<close>
                               (case upsertBackend d1 (iu_BackendResolver r)
                                       (iu_BackendDNSResolver r) (iu_BackendHosts r)
                                       (iu_BackendPort r) (iu_IsTLS r) (iu_BackendSNIDomain r) of
                                  (Inl e, d2) \<Rightarrow>
                                    (Inl (Errorf_w ''failed to upsert backend: '' e), d2)
                                | (Inr backend, d2) \<Rightarrow>
                                    (case upsertIngressRule d2 (iu_Protocol r) (lst_ID listener)
                                            (iu_Domain r) routePrefix (bk_ID backend)
                                            (iu_AllowedCIDRs r) (iu_DeniedCIDRs r)
                                            (iu_Priority r) of
                                       (Inl e, d3) \<Rightarrow>
                                         (Inl (Errorf_w ''failed to upsert ingress rule: '' e), d3)
                                     | (Inr ingressRule, d3) \<Rightarrow>
                                         (Inr (Some (marshal_IngressRule ingressRule)), d3)))))))))"

definition IngressRuleDeleteV1_Process ::
  "lib \<Rightarrow> db \<Rightarrow> IngressRuleDeleteV1 \<Rightarrow> (error + json option) \<times> db" where
  "IngressRuleDeleteV1_Process L d r =
     (if idl_BindIP r \<noteq> ''0.0.0.0''
      then (Inl (Err ''currently only 0.0.0.0 is supported for bind_ip''), d)
      else if idl_Port r \<le> 0 \<or> idl_Port r > 65535
      then (Inl (Err ''port is required and must be between 1 and 65535''), d)
      else
        (case (if idl_Protocol r = HTTP then validateDomain L (idl_Domain r) else None) of
           Some e \<Rightarrow> (Inl (Errorf_w ''invalid domain: '' e), d)
         | None \<Rightarrow>
             (let routePrefix = (if idl_Protocol r = HTTP \<and> idl_RoutePrefix r = [] then ''/''
                                 else idl_RoutePrefix r) in
              case deleteIngressRule d (idl_Protocol r)
                     (getListenerID (idl_BindIP r) (idl_Port r)) (idl_Domain r) routePrefix of
                (Some e, d1) \<Rightarrow> (Inl e, d1)
              | (None, d1) \<Rightarrow> (Inr None, d1))))"

definition HTTPRedirectRuleUpsertV1_Process ::
  "lib \<Rightarrow> db \<Rightarrow> HTTPRedirectRuleUpsertV1 \<Rightarrow> (error + json option) \<times> db" where
  "HTTPRedirectRuleUpsertV1_Process L d r =
     (if ru_BindIP r \<noteq> ''0.0.0.0''
      then (Inl (Err ''currently only 0.0.0.0 is supported for bind_ip''), d)
      else if ru_Port r \<le> 0 \<or> ru_Port r > 65535
      then (Inl (Err ''port is required and must be between 1 and 65535''), d)
      else
        (case validateDomain L (ru_Domain r) of
           Some e \<Rightarrow> (Inl (Errorf_w ''invalid domain: '' e), d)
         | None \<Rightarrow>
             (let routePrefix = (if ru_RoutePrefix r = [] then ''/'' else ru_RoutePrefix r) in
              case upsertListener d (ru_BindIP r) (ru_Port r) HTTP (ru_IsTLS r) of
                (Inl e, d1) \<Rightarrow> (Inl (Errorf_w ''failed to upsert listener: '' e), d1)
              | (Inr listener, d1) \<Rightarrow>
                  (case upsertHTTPRedirectRule d1 (lst_ID listener) (ru_Domain r) routePrefix
                          (ru_IsHttpsRedirect r) (ru_SchemeRedirect r) (ru_HostRedirect r)
                          (ru_PathRedirect r) (ru_StatusCode r) (ru_Priority r) of
                     (Inl e, d2) \<Rightarrow> (Inl (Errorf_w ''failed to upsert redirect rule: '' e), d2)
                   | (Inr redirectRule, d2) \<Rightarrow>
                       (Inr (Some (marshal_HTTPRedirectRule redirectRule)), d2)))))"

definition HTTPRedirectRuleDeleteV1_Process ::
  "lib \<Rightarrow> db \<Rightarrow> HTTPRedirectRuleDeleteV1 \<Rightarrow> (error + json option) \<times> db" where
  "HTTPRedirectRuleDeleteV1_Process L d r =
     (if rd_BindIP r \<noteq> ''0.0.0.0''
      then (Inl (Err ''currently only 0.0.0.0 is supported for bind_ip''), d)
      else if rd_Port r \<le> 0 \<or> rd_Port r > 65535
      then (Inl (Err ''port is required and must be between 1 and 65535''), d)
      else
        (case validateDomain L (rd_Domain r) of
           Some e \<Rightarrow> (Inl (Errorf_w ''invalid domain: '' e), d)
         | None \<Rightarrow>
             (let routePrefix = (if rd_RoutePrefix r = [] then ''/'' else rd_RoutePrefix r) in
              case deleteHTTPRedirectRule d (getListenerID (rd_BindIP r) (rd_Port r))
                     (rd_Domain r) routePrefix (rd_IsHttpsRedirect r) of
                (Some e, d1) \<Rightarrow> (Inl e, d1)
              | (None, d1) \<Rightarrow> (Inr None, d1))))"

section \<open>Dispatch and the message ledger (handler.go)\<close>

definition check_common ::
  "string \<Rightarrow> 'a CommonEventParamsV1_scheme \<Rightarrow> request \<Rightarrow> error + request" where
  \<comment> \<open>the two reflective checks of \<open>parseEvent\<close> on \<open>RequestID\<close> and \<open>RequestedAt\<close>\<close>
  "check_common event r req =
     (if RequestID r = [] then Inl (Err (''missing or empty RequestID in event '' @ event))
      else if RequestedAt r = 0
      then Inl (Err (''missing or zero RequestedAt in event '' @ event))
      else Inr req)"

definition unmarshal_error :: "string \<Rightarrow> error \<Rightarrow> error" where
  "unmarshal_error event e =
     Err (''failed to unmarshal event ('' @ event @ '') data: '' @ error_text e @ '' '')"

definition EventToRequestTypeMapping :: "string list" where
  \<comment> \<open>the keys of the registry\<close>
  "EventToRequestTypeMapping =
     [''v1.tls_certificate.upsert'', ''v1.tls_certificate.delete'',
      ''v1.ingress_rule.upsert'', ''v1.ingress_rule.delete'',
      ''v1.http_redirect_rule.upsert'', ''v1.http_redirect_rule.delete'']"

definition parseEvent :: "lib \<Rightarrow> string \<Rightarrow> string \<Rightarrow> error + request" where
  "parseEvent L event data =
     (if event = ''v1.tls_certificate.upsert'' then
        (case Unmarshal_TLSCertificateUpsertV1 L data of
           Inl e \<Rightarrow> Inl (unmarshal_error event e)
         | Inr r \<Rightarrow> check_common event r (ReqTLSCertificateUpsert r))
      else if event = ''v1.tls_certificate.delete'' then
        (case Unmarshal_TLSCertificateDeleteV1 L data of
           Inl e \<Rightarrow> Inl (unmarshal_error event e)
         | Inr r \<Rightarrow> check_common event r (ReqTLSCertificateDelete r))
      else if event = ''v1.ingress_rule.upsert'' then
        (case Unmarshal_IngressRuleUpsertV1 L data of
           Inl e \<Rightarrow> Inl (unmarshal_error event e)
         | Inr r \<Rightarrow> check_common event r (ReqIngressRuleUpsert r))
      else if event = ''v1.ingress_rule.delete'' then
        (case Unmarshal_IngressRuleDeleteV1 L data of
           Inl e \<Rightarrow> Inl (unmarshal_error event e)
         | Inr r \<Rightarrow> check_common event r (ReqIngressRuleDelete r))
      else if event = ''v1.http_redirect_rule.upsert'' then
        (case Unmarshal_HTTPRedirectRuleUpsertV1 L data of
           Inl e \<Rightarrow> Inl (unmarshal_error event e)
         | Inr r \<Rightarrow> check_common event r (ReqHTTPRedirectRuleUpsert r))
      else if event = ''v1.http_redirect_rule.delete'' then
        (case Unmarshal_HTTPRedirectRuleDeleteV1 L data of
           Inl e \<Rightarrow> Inl (unmarshal_error event e)
         | Inr r \<Rightarrow> check_common event r (ReqHTTPRedirectRuleDelete r))
      else Inl (Err (''unknown event: '' @ event)))"

fun Process :: "lib \<Rightarrow> db \<Rightarrow> request \<Rightarrow> (error + json option) \<times> db" where
  "Process L d (ReqTLSCertificateUpsert r) = TLSCertificateUpsertV1_Process L d r"
| "Process L d (ReqTLSCertificateDelete r) = TLSCertificateDeleteV1_Process L d r"
| "Process L d (ReqIngressRuleUpsert r) = IngressRuleUpsertV1_Process L d r"
| "Process L d (ReqIngressRuleDelete r) = IngressRuleDeleteV1_Process L d r"
| "Process L d (ReqHTTPRedirectRuleUpsert r) = HTTPRedirectRuleUpsertV1_Process L d r"
| "Process L d (ReqHTTPRedirectRuleDelete r) = HTTPRedirectRuleDeleteV1_Process L d r"

definition save_Message :: "db \<Rightarrow> Message \<Rightarrow> db" where
  \<comment> \<open>the deferred \<open>db.Save(&msg)\<close>; its error is printed and dropped\<close>
  "save_Message d msg =
     (case gorm_Save msg_ID msg (messages d) d of (e, rows, d') \<Rightarrow> d'\<lparr>messages := rows\<rparr>)"

definition processMessage :: "lib \<Rightarrow> time \<Rightarrow> db \<Rightarrow> Message \<Rightarrow> db" where
  "processMessage L currentTime d msg0 =
     (let msg = msg0\<lparr>msg_ProcessedAt := Some currentTime, msg_Success := False,
                     msg_Processed := True, msg_ResponsePayload := JObj [],
                     msg_ErrorMessage := []\<rparr> in
      if msg_Event msg \<notin> set EventToRequestTypeMapping
      then save_Message d (msg\<lparr>msg_ErrorMessage := ''unknown event: '' @ msg_Event msg\<rparr>)
      else
        (case parseEvent L (msg_Event msg) (msg_RequestPayload msg) of
           Inl e \<Rightarrow>
             save_Message d
               (msg\<lparr>msg_ErrorMessage := ''failed to parse event: '' @ error_text e\<rparr>)
         | Inr request \<Rightarrow>
             (case Process L d request of
                (Inl e, d1) \<Rightarrow>
                  save_Message d1
                    (msg\<lparr>msg_ErrorMessage := ''failed to process request: '' @ error_text e\<rparr>)
              | (Inr replyJSON, d1) \<Rightarrow>
                  save_Message d1
                    (case replyJSON of
                       None \<Rightarrow> msg\<lparr>msg_Success := True\<rparr>
                     | Some j \<Rightarrow> msg\<lparr>msg_Success := True, msg_ResponsePayload := j\<rparr>))))"

section \<open>Orphan cleanup (handler.go)\<close>

definition uniqueSortedStrings :: "string list \<Rightarrow> string list" where
  \<comment> \<open>\<open>slices.Sort\<close> followed by \<open>slices.Compact\<close>\<close>
  "uniqueSortedStrings s = remdups_adj (sort s)"

definition cleanupUnusedBackendsAndListeners :: "db \<Rightarrow> error option \<times> db" where
  "cleanupUnusedBackendsAndListeners d =
     (case gorm_Pluck ir_ListenerID (ingress_rules d) d of
        (Inl e, d1) \<Rightarrow>
          (Some (Errorf_w ''failed to get listener_id from Ingress Rule: '' e), d1)
      | (Inr listenerIDsFromIngressRules, d1) \<Rightarrow>
     (case gorm_Pluck rr_ListenerID (http_redirect_rules d1) d1 of
        (Inl e, d2) \<Rightarrow>
          (Some (Errorf_w ''failed to get listener_id from HTTP Redirect Rule: '' e), d2)
      | (Inr listenerIDsFromHTTPRedirectRules, d2) \<Rightarrow>
     (case gorm_Pluck ir_BackendID (ingress_rules d2) d2 of
        (Inl e, d3) \<Rightarrow>
          (Some (Errorf_w ''failed to get backend_id from Ingress Rule: '' e), d3)
      | (Inr backendIDs, d3) \<Rightarrow>
     (let allBackendIDs = uniqueSortedStrings backendIDs;
          allListenerIDs = uniqueSortedStrings
             (listenerIDsFromIngressRules @ listenerIDsFromHTTPRedirectRules) in
      case (if length allBackendIDs > 0
            then (case gorm_Delete_NotIn bk_ID allBackendIDs (backends d3) d3 of
                    (e, rows, d4) \<Rightarrow> (e, d4\<lparr>backends := rows\<rparr>))
            else (None, d3)) of
        (Some e, d4) \<Rightarrow> (Some (Errorf_w ''failed to delete unused backends: '' e), d4)
      | (None, d4) \<Rightarrow>
          (case (if length allListenerIDs > 0
                 then (case gorm_Delete_NotIn lst_ID allListenerIDs (listeners d4) d4 of
                         (e, rows, d5) \<Rightarrow> (e, d5\<lparr>listeners := rows\<rparr>))
                 else (None, d4)) of
             (Some e, d5) \<Rightarrow> (Some (Errorf_w ''failed to delete unused listeners: '' e), d5)
           | (None, d5) \<Rightarrow> (None, d5))))))"

section \<open>The processor and the reply publisher (Manager)\<close>

text \<open>
  A gorm statement collects its clauses until a finisher (\<open>Find\<close>) runs the query with the
  clauses collected so far.
\<close>

record 'r query =
  q_where :: "'r \<Rightarrow> bool"
  q_order :: "('r \<Rightarrow> time option) option"
  q_limit :: "nat option"

definition gorm_Where :: "('r \<Rightarrow> bool) \<Rightarrow> 'r query" where
  "gorm_Where p = \<lparr>q_where = p, q_order = None, q_limit = None\<rparr>"

definition gorm_Order :: "('r \<Rightarrow> time option) \<Rightarrow> 'r query \<Rightarrow> 'r query" where
  "gorm_Order k q = q\<lparr>q_order := Some k\<rparr>"

definition gorm_Limit :: "nat \<Rightarrow> 'r query \<Rightarrow> 'r query" where
  "gorm_Limit n q = q\<lparr>q_limit := Some n\<rparr>"

definition gorm_Find :: "'r query \<Rightarrow> 'r list \<Rightarrow> db \<Rightarrow> (error + 'r list) \<times> db" where
  "gorm_Find q rows d =
     (case db_call d of
        (Some m, d') \<Rightarrow> (Inl (Err m), d')
      | (None, d') \<Rightarrow>
          (let matched = filter (q_where q) rows;
               ordered = (case q_order q of None \<Rightarrow> matched | Some k \<Rightarrow> sort_key k matched);
               limited = (case q_limit q of None \<Rightarrow> ordered | Some n \<Rightarrow> take n ordered)
           in (Inr limited, d')))"

definition rollback :: "db \<Rightarrow> db \<Rightarrow> db" where
  \<comment> \<open>the tables as they were when the transaction began; what the environment has
      consumed stays consumed\<close>
  "rollback before tx =
     tx\<lparr>messages := messages before, tls_certificates := tls_certificates before,
        listeners := listeners before, backends := backends before,
        ingress_rules := ingress_rules before,
        http_redirect_rules := http_redirect_rules before\<rparr>"

definition ProcessRequests_iteration :: "lib \<Rightarrow> time \<Rightarrow> db \<Rightarrow> db \<times> bool \<times> error option" where
  \<comment> \<open>one pass of the loop body of \<open>Manager.ProcessRequests\<close>; the flag says whether the
      transaction was committed, after which \<open>BroadcastChangesToProxies\<close> runs; the last
      component is the error of the orphan cleanup, which the pass only prints;
      \<open>currentTime\<close> is what \<open>time.Now()\<close> reads during the pass\<close>
  "ProcessRequests_iteration L currentTime d =
     (case gorm_Find
             (gorm_Limit 100 (gorm_Order msg_QueuedAt (gorm_Where (\<lambda>m. msg_Processed m = False))))
             (messages d) d of
        (Inl e, d0) \<Rightarrow> (d0, False, None)
      | (Inr msgs, d0) \<Rightarrow>
          if length msgs = 0 then (d0, False, None)
          else
            (let tx = foldl (processMessage L currentTime) d0 msgs in
             case cleanupUnusedBackendsAndListeners tx of
               (err, tx1) \<Rightarrow>
                 (case db_call tx1 of
                    (Some m, tx2) \<Rightarrow> (rollback d0 tx2, False, err)
                  | (None, tx2) \<Rightarrow> (tx2, True, err))))"

definition SendResponsesToQueue_fetch :: "db \<Rightarrow> (error + Message list) \<times> db" where
  \<comment> \<open>\<open>tx := m.ReadOnlyDB.Where("processed = ? AND replied = ?", true, false)
      .Find(&messages).Limit(200)\<close>: \<open>Find\<close> has filled \<open>messages\<close> before \<open>Limit\<close> is
      added to the statement, and only \<open>tx.Error\<close> is read afterwards\<close>
  "SendResponsesToQueue_fetch d =
     (let q = gorm_Where (\<lambda>m. msg_Processed m = True \<and> msg_Replied m = False);
          found = gorm_Find q (messages d) d;
          tx = gorm_Limit 200 q
      in found)"

section \<open>Predicates used in the statements\<close>

definition rows_kept :: "('r \<Rightarrow> string) \<Rightarrow> 'r list \<Rightarrow> 'r list \<Rightarrow> bool" where
  \<comment> \<open>a table after a step: the old rows as they were, possibly followed by new ones, and
      still with unique keys if it had them\<close>
  "rows_kept key old new \<longleftrightarrow>
     (\<exists>ext. new = old @ ext) \<and> (distinct (map key old) \<longrightarrow> distinct (map key new))"

definition listener_referenced :: "db \<Rightarrow> Listener \<Rightarrow> bool" where
  "listener_referenced d l \<longleftrightarrow>
     lst_ID l \<in> set (map ir_ListenerID (ingress_rules d) @ map rr_ListenerID (http_redirect_rules d))"

definition backend_referenced :: "db \<Rightarrow> Backend \<Rightarrow> bool" where
  "backend_referenced d b \<longleftrightarrow> bk_ID b \<in> set (map ir_BackendID (ingress_rules d))"

definition no_orphans :: "db \<Rightarrow> bool" where
  "no_orphans d \<longleftrightarrow>
     list_all (listener_referenced d) (listeners d) \<and> list_all (backend_referenced d) (backends d)"

definition batch_of :: "db \<Rightarrow> Message list" where
  \<comment> \<open>what the processor's query returns when it does not fail\<close>
  "batch_of d = take 100 (sort_key msg_QueuedAt (filter (\<lambda>m. \<not> msg_Processed m) (messages d)))"

section \<open>Sample inputs\<close>

text \<open>
  An instance of the library parameters for the concrete runs below. Its IDNA function is
  the lookup profile on the lower-case letter-digit-hyphen names used here: such a name
  is returned as it is, and a rune outside that set (the asterisk among them) is
  disallowed under the STD3 rules the profile enables.
\<close>

definition ascii_ToASCII :: "string \<Rightarrow> error + string" where
  "ascii_ToASCII s =
     (if list_all (\<lambda>c. c \<in> set ''abcdefghijklmnopqrstuvwxyz0123456789-.'') s then Inr s
      else Inl (Err ''idna: disallowed rune''))"

definition ascii_TrimSpace :: "string \<Rightarrow> string" where
  "ascii_TrimSpace s =
     rev (dropWhile (\<lambda>c. c \<in> set [CHR 0x20, CHR 0x09, CHR 0x0A, CHR 0x0B, CHR 0x0C, CHR 0x0D])
       (rev (dropWhile
          (\<lambda>c. c \<in> set [CHR 0x20, CHR 0x09, CHR 0x0A, CHR 0x0B, CHR 0x0C, CHR 0x0D]) s)))"

definition sample_lib :: lib where
  "sample_lib =
     \<lparr>idna_Lookup_ToASCII = ascii_ToASCII,
      strings_TrimSpace = ascii_TrimSpace,
      IsValidCIDR = (\<lambda>s. s = ''10.0.0.0/8''),
      ValidateCertAndKey = (\<lambda>c k. None),
      getCertExpiry = (\<lambda>c. Inr 1000),
      Unmarshal_TLSCertificateUpsertV1 = (\<lambda>s. Inl (Err ''unexpected end of JSON input'')),
      Unmarshal_TLSCertificateDeleteV1 = (\<lambda>s. Inl (Err ''unexpected end of JSON input'')),
      Unmarshal_IngressRuleUpsertV1 = (\<lambda>s. Inl (Err ''unexpected end of JSON input'')),
      Unmarshal_IngressRuleDeleteV1 = (\<lambda>s. Inl (Err ''unexpected end of JSON input'')),
      Unmarshal_HTTPRedirectRuleUpsertV1 = (\<lambda>s. Inl (Err ''unexpected end of JSON input'')),
      Unmarshal_HTTPRedirectRuleDeleteV1 = (\<lambda>s. Inl (Err ''unexpected end of JSON input''))\<rparr>"

definition empty_db :: db where
  "empty_db =
     \<lparr>messages = [], tls_certificates = [], listeners = [], backends = [],
      ingress_rules = [], http_redirect_rules = [], faults = [],
      uuids = (\<lambda>n. ''uuid-'' @ digits n), uuid_next = 0\<rparr>"

definition sample_redirect :: HTTPRedirectRuleUpsertV1 where
  "sample_redirect =
     \<lparr>RequestID = ''r1'', RequestedAt = 1, ru_Priority = 1, ru_BindIP = ''0.0.0.0'',
      ru_Port = 80, ru_IsTLS = False, ru_Domain = ''example.com'', ru_RoutePrefix = ''/'',
      ru_IsHttpsRedirect = True, ru_SchemeRedirect = ''https'', ru_HostRedirect = [],
      ru_PathRedirect = [], ru_StatusCode = 0\<rparr>"

definition sample_ingress :: IngressRuleUpsertV1 where
  "sample_ingress =
     \<lparr>RequestID = ''i1'', RequestedAt = 1, iu_Priority = 10, iu_BindIP = ''0.0.0.0'',
      iu_Port = 80, iu_Protocol = ''http'', iu_IsTLS = False, iu_Domain = ''example.com'',
      iu_RoutePrefix = ''/'', iu_AllowedCIDRs = [], iu_DeniedCIDRs = [],
      iu_BackendResolver = ''static'', iu_BackendDNSResolver = [],
      iu_BackendHosts = [''b'', ''a''], iu_BackendPort = 8080, iu_BackendIsTLS = False,
      iu_BackendSNIDomain = []\<rparr>"

definition sample_tls :: TLSCertificateUpsertV1 where
  "sample_tls =
     \<lparr>RequestID = ''t1'', RequestedAt = 1, tu_IsWildcard = False, tu_Domain = ''example.com'',
      tu_Cert = ''CERT'', tu_Key = ''KEY''\<rparr>"

definition sample_message :: Message where
  "sample_message =
     \<lparr>msg_ID = 1, msg_Event = ''v1.tls_certificate.upsert'', msg_RequestID = ''t1'',
      msg_RequestPayload = ''{}'', msg_ResponsePayload = JObj [], msg_ErrorMessage = [],
      msg_Success = False, msg_Processed = False, msg_Replied = False,
      msg_RequestedAt = Some 1, msg_QueuedAt = Some 2, msg_ProcessedAt = None\<rparr>"

definition tls_lib :: lib where
  \<comment> \<open>the payload of \<open>sample_message\<close> decodes to \<open>sample_tls\<close>\<close>
  "tls_lib = sample_lib\<lparr>Unmarshal_TLSCertificateUpsertV1 := (\<lambda>s. Inr sample_tls)\<rparr>"

definition sample_delete :: IngressRuleDeleteV1 where
  "sample_delete =
     \<lparr>RequestID = ''i2'', RequestedAt = 2, idl_BindIP = ''0.0.0.0'', idl_Port = 80,
      idl_Protocol = ''http'', idl_Domain = ''example.com'', idl_RoutePrefix = ''/''\<rparr>"

definition rules_lib :: lib where
  \<comment> \<open>the payloads of \<open>upsert_message\<close> and \<open>delete_message\<close> decode to these requests\<close>
  "rules_lib = sample_lib
     \<lparr>Unmarshal_IngressRuleUpsertV1 := (\<lambda>s. Inr sample_ingress),
      Unmarshal_IngressRuleDeleteV1 := (\<lambda>s. Inr sample_delete)\<rparr>"

definition upsert_message :: Message where
  "upsert_message = sample_message
     \<lparr>msg_ID := 1, msg_Event := ''v1.ingress_rule.upsert'', msg_RequestID := ''i1''\<rparr>"

definition delete_message :: Message where
  "delete_message = sample_message
     \<lparr>msg_ID := 2, msg_Event := ''v1.ingress_rule.delete'', msg_RequestID := ''i2'',
      msg_QueuedAt := Some 3\<rparr>"

definition listener_80 :: Listener where
  "listener_80 = \<lparr>lst_ID = ''0.0.0.0:80'', lst_Protocol = ''http'', lst_IP = ''0.0.0.0'',
                    lst_Port = 80, lst_IsTLS = False\<rparr>"

definition db_with_rule :: db where
  \<comment> \<open>the store after \<open>upsert_message\<close> has been processed on the empty store\<close>
  "db_with_rule = empty_db
        \<lparr>messages := [upsert_message
            \<lparr>msg_ProcessedAt := Some 5, msg_Success := True, msg_Processed := True,
             msg_ResponsePayload := marshal_IngressRule
               \<lparr>ir_ID = ''http:0.0.0.0:80:example.com:/'', ir_Priority = 10,
                ir_ListenerID = ''0.0.0.0:80'', ir_BackendID = ''uuid-0'',
                ir_Domain = ''example.com'', ir_RoutePrefix = ''/'',
                ir_AllowedCIDRs = JArr [], ir_DeniedCIDRs = JArr []\<rparr>\<rparr>],
         listeners := [listener_80],
         backends := [\<lparr>bk_ID = ''uuid-0'', bk_ResolverType = ''static'', bk_DNSResolver = [],
                       bk_Hosts = JArr [JStr ''a'', JStr ''b''], bk_Port = 8080,
                       bk_IsTLS = False, bk_SNIDomain = []\<rparr>],
         ingress_rules := [\<lparr>ir_ID = ''http:0.0.0.0:80:example.com:/'', ir_Priority = 10,
                ir_ListenerID = ''0.0.0.0:80'', ir_BackendID = ''uuid-0'',
                ir_Domain = ''example.com'', ir_RoutePrefix = ''/'',
                ir_AllowedCIDRs = JArr [], ir_DeniedCIDRs = JArr []\<rparr>],
         uuid_next := 1\<rparr>"

definition sample_ingress_81 :: IngressRuleUpsertV1 where
  "sample_ingress_81 =
     sample_ingress\<lparr>RequestID := ''i3'', iu_Port := 81, iu_BackendPort := 8081\<rparr>"

definition lib_81 :: lib where
  \<comment> \<open>the payload of \<open>upsert_message_81\<close> decodes to \<open>sample_ingress_81\<close>\<close>
  "lib_81 = sample_lib\<lparr>Unmarshal_IngressRuleUpsertV1 := (\<lambda>s. Inr sample_ingress_81)\<rparr>"

definition upsert_message_81 :: Message where
  "upsert_message_81 = sample_message
     \<lparr>msg_ID := 3, msg_Event := ''v1.ingress_rule.upsert'', msg_RequestID := ''i3'',
      msg_QueuedAt := Some 4\<rparr>"

definition db_before_81 :: db where
  \<comment> \<open>\<open>upsert_message_81\<close> is queued on the store with one rule; the seventh datastore call
      of the pass, the insert of the new ingress rule, will fail\<close>
  "db_before_81 = db_with_rule
     \<lparr>messages := messages db_with_rule @ [upsert_message_81],
      faults := [None, None, None, None, None, None, Some ''disk I/O error'']\<rparr>"

definition db_after_81 :: db where
  "db_after_81 = db_with_rule
     \<lparr>messages := messages db_with_rule @
        [upsert_message_81
           \<lparr>msg_ProcessedAt := Some 7, msg_Processed := True,
            msg_ErrorMessage :=
              ''failed to process request: failed to upsert ingress rule: disk I/O error''\<rparr>],
      uuid_next := 2\<rparr>"

section \<open>Evaluation rules\<close>

lemmas store_defs = db_call_def gorm_First_def gorm_Create_def gorm_Save_def gorm_Delete_def
  gorm_Delete_NotIn_def SQLITE_MAX_VARIABLE_NUMBER_def
  gorm_Pluck_def uuid_NewString_def Let_def

lemmas listener_defs = upsertListener_def isListenerExist_def getListenerByID_def
  getListenerID_def Sprintf_d_def Listener_defaults_def release_hint_def HTTP_def TCP_def

lemmas redirect_defs = HTTPRedirectRuleUpsertV1_Process_def upsertHTTPRedirectRule_def
  findHTTPRedirectRule_def getHTTPRedirectRuleID_def Sprintf_d_string_def
  HTTPRedirectRule_defaults_def marshal_HTTPRedirectRule_def Errorf_w_def

lemmas domain_defs = validateDomain_def labelRE_MatchString_def

lemmas sample_defs = sample_lib_def ascii_ToASCII_def ascii_TrimSpace_def empty_db_def
  sample_redirect_def sample_ingress_def sample_tls_def sample_message_def tls_lib_def

lemmas ingress_defs = IngressRuleUpsertV1_Process_def upsertBackend_def findBackend_def
  upsertIngressRule_def findIngressRule_def getIngressRuleID_def StringList_Value_def
  Backend_defaults_def IngressRule_defaults_def marshal_IngressRule_def DNS_RESOLVER_def
  IngressRuleDeleteV1_Process_def deleteIngressRule_def

lemmas tls_defs = TLSCertificateUpsertV1_Process_def isTLSCertificateExist_def
  getTLSCertificateID_def ensure_trailing_newline_def marshal_TLSCertificate_def

lemmas message_defs = processMessage_def save_Message_def parseEvent_def check_common_def
  EventToRequestTypeMapping_def unmarshal_error_def

lemma digits_80: "digits 80 = ''80''"
  by (simp add: digits.simps)

section \<open>Identity of a redirect rule\<close>

text \<open>
  C2. The id of a stored HTTP redirect rule should be
  \<open>"http:" + listener_id + ":" + domain + ":" + route_prefix + ":" + kind\<close> with \<open>kind\<close>
  one of \<open>https\<close> and \<open>other\<close>. The format string of \<open>getHTTPRedirectRuleID\<close> ends in the
  verb \<open>%d\<close> for the string \<open>redirectType\<close>, so the last segment is
  \<open>%!d(string=https)\<close>: the rule stored for a request on \<open>0.0.0.0:80\<close>, domain
  \<open>example.com\<close>, prefix \<open>/\<close>, HTTPS redirect, has the id shown, not
  \<open>http:0.0.0.0:80:example.com:/:https\<close>.
\<close>

theorem redirect_rule_id_has_bad_verb:
  "map rr_ID (http_redirect_rules
      (snd (HTTPRedirectRuleUpsertV1_Process sample_lib empty_db sample_redirect)))
   = [''http:0.0.0.0:80:example.com:/:%!d(string=https)'']"
  by (simp add: store_defs listener_defs redirect_defs domain_defs sample_defs digits_80)

lemma getHTTPRedirectRuleID_never_as_specified:
  "getHTTPRedirectRuleID l dm p b
     \<noteq> ''http:'' @ l @ '':'' @ dm @ '':'' @ p @ '':'' @ (if b then ''https'' else ''other'')"
  by (simp add: getHTTPRedirectRuleID_def Sprintf_d_string_def)

section \<open>A failed certificate write\<close>

text \<open>
  C3. When the write of the TLSCertificate row fails, the handler should return that
  error, so that the message is recorded with \<open>success = false\<close> and the failure in
  \<open>error_message\<close>. In \<open>TLSCertificateUpsertV1.Process\<close> the error of \<open>Save\<close>/\<open>Create\<close> is
  assigned to \<open>err\<close> and overwritten by the result of \<open>json.Marshal\<close> before it is read.
  Run: a valid upsert whose existence check succeeds and whose \<open>Create\<close> fails with a
  disk error. No row is stored, yet the message is saved with \<open>success = true\<close> and an
  empty \<open>error_message\<close>.
\<close>

theorem tls_write_failure_reported_as_success:
  "tls_certificates (processMessage tls_lib 5
       (empty_db\<lparr>messages := [sample_message], faults := [None, Some ''disk I/O error'']\<rparr>)
       sample_message) = []
   \<and> map msg_Success (messages (processMessage tls_lib 5
       (empty_db\<lparr>messages := [sample_message], faults := [None, Some ''disk I/O error'']\<rparr>)
       sample_message)) = [True]
   \<and> map msg_ErrorMessage (messages (processMessage tls_lib 5
       (empty_db\<lparr>messages := [sample_message], faults := [None, Some ''disk I/O error'']\<rparr>)
       sample_message)) = [[]]"
  by (simp add: store_defs tls_defs message_defs sample_defs)

section \<open>Wildcard domains\<close>

text \<open>
  C4. A domain \<open>*\<close> or \<open>*.rest\<close> with \<open>rest\<close> valid should pass the domain validation of
  the ingress-rule and redirect-rule handlers. The handlers call \<open>validateDomain\<close>, the
  helper without the wildcard branch, not \<open>IsValidDomain\<close>: the asterisk goes to the IDNA
  lookup profile, which disallows it, and the request is refused as an invalid domain.
\<close>

theorem wildcard_domain_rejected_by_handlers:
  "fst (HTTPRedirectRuleUpsertV1_Process sample_lib empty_db
          (sample_redirect\<lparr>ru_Domain := ''*''\<rparr>))
     = Inl (Err ''invalid domain: invalid IDN: idna: disallowed rune'')
   \<and> fst (IngressRuleUpsertV1_Process sample_lib empty_db
          (sample_ingress\<lparr>iu_Domain := ''*.example.com''\<rparr>))
     = Inl (Err ''invalid domain: invalid IDN: idna: disallowed rune'')"
  by (simp add: store_defs listener_defs redirect_defs domain_defs sample_defs digits_80
      ingress_defs)

text \<open>The wrapper that no handler calls accepts both names.\<close>

lemma IsValidDomain_accepts_wildcards:
  "IsValidDomain sample_lib ''*'' = None \<and> IsValidDomain sample_lib ''*.example.com'' = None"
  by (simp add: IsValidDomain_def domain_defs sample_defs)

text \<open>
  The refusal does not depend on the instance of the IDNA function: whenever it fails on
  the name or leaves an asterisk in its result, \<open>validateDomain\<close> refuses the name.
\<close>

lemma Split_dot_mem:
  "c \<in> set s \<Longrightarrow> c \<noteq> CHR ''.'' \<Longrightarrow> \<exists>p\<in>set (Split_dot s). c \<in> set p"
  by (induction s) (auto split: list.splits)

lemma validate_labels_None:
  "validate_labels ps = None \<Longrightarrow> p \<in> set ps \<Longrightarrow> labelRE_MatchString p"
  by (induction ps) (auto split: if_splits)

lemma labelRE_no_asterisk:
  assumes "labelRE_MatchString p"
  shows "CHR ''*'' \<notin> set p"
proof -
  have allowed: "\<forall>c\<in>set p. c \<in> set ''abcdefghijklmnopqrstuvwxyz0123456789-''"
    using assms unfolding labelRE_MatchString_def list_all_iff by blast
  have "CHR ''*'' \<notin> set ''abcdefghijklmnopqrstuvwxyz0123456789-''"
    by simp
  with allowed show ?thesis by blast
qed

lemma validateDomain_asterisk:
  assumes "case idna_Lookup_ToASCII L s of Inl e \<Rightarrow> True | Inr a \<Rightarrow> CHR ''*'' \<in> set a"
  shows "validateDomain L s \<noteq> None"
proof (cases "idna_Lookup_ToASCII L s")
  case (Inl e)
  then show ?thesis by (simp add: validateDomain_def)
next
  case (Inr a)
  with assms have "CHR ''*'' \<in> set a" by simp
  then obtain p where p: "p \<in> set (Split_dot a)" "CHR ''*'' \<in> set p"
    using Split_dot_mem[of "CHR ''*''" a] by auto
  have "validate_labels (Split_dot a) \<noteq> None"
    using validate_labels_None[OF _ p(1)] labelRE_no_asterisk p(2) by blast
  with Inr show ?thesis by (simp add: validateDomain_def)
qed

section \<open>Re-upserting a redirect rule\<close>

text \<open>
  C6. Of two upserts that target the same HTTP redirect rule, the later should win on
  every field, the priority among them. The update branch of \<open>upsertHTTPRedirectRule\<close>
  assigns the redirect fields and the status code but not \<open>Priority\<close> (the update branch
  of \<open>upsertIngressRule\<close> does assign it). Run: the rule is created with priority 1 and
  upserted again with priority 2; the stored priority is still 1.
\<close>

theorem redirect_reupsert_keeps_first_priority:
  "map rr_Priority (http_redirect_rules
      (snd (HTTPRedirectRuleUpsertV1_Process sample_lib
              (snd (HTTPRedirectRuleUpsertV1_Process sample_lib empty_db sample_redirect))
              (sample_redirect\<lparr>RequestID := ''r2'', ru_Priority := 2\<rparr>))))
   = [1]"
  by (simp add: store_defs listener_defs redirect_defs domain_defs sample_defs digits_80)

section \<open>Status code of a redirect rule\<close>

text \<open>
  C7. Every stored redirect rule should have a status code among 301, 302, 307 and 308
  (the values the comment on \<open>HTTPRedirectRule.StatusCode\<close> lists), zero being stored as
  301. The handler replaces zero by 301 and checks nothing else. Run: a request with
  status code 404 is stored with 404.
\<close>

theorem redirect_status_code_not_checked:
  "map rr_StatusCode (http_redirect_rules
      (snd (HTTPRedirectRuleUpsertV1_Process sample_lib empty_db
              (sample_redirect\<lparr>ru_StatusCode := 404\<rparr>))))
   = [404]"
  by (simp add: store_defs listener_defs redirect_defs domain_defs sample_defs digits_80)

text \<open>The default itself works: a zero status code is stored as 301.\<close>

lemma redirect_status_code_default:
  "map rr_StatusCode (http_redirect_rules
      (snd (HTTPRedirectRuleUpsertV1_Process sample_lib empty_db sample_redirect)))
   = [301]"
  by (simp add: store_defs listener_defs redirect_defs domain_defs sample_defs digits_80)

section \<open>The reply publisher's query\<close>

text \<open>
  C5. Each pass of the reply publisher should fetch at most 200 messages with
  \<open>processed = true\<close> and \<open>replied = false\<close>. \<open>Limit(200)\<close> is chained after \<open>Find\<close>, which
  has already run the query (the processor writes \<open>Limit(100).Find(&messages)\<close>), so
  every pending message is fetched. Run: with 201 pending messages all 201 are fetched.
\<close>

theorem reply_fetch_is_unbounded:
  "map_sum id length
     (fst (SendResponsesToQueue_fetch
        (empty_db\<lparr>messages :=
           map (\<lambda>i. sample_message\<lparr>msg_ID := i, msg_Processed := True\<rparr>) [0..<201]\<rparr>)))
   = Inr 201"
  by (simp add: SendResponsesToQueue_fetch_def gorm_Find_def gorm_Where_def gorm_Limit_def
      db_call_def Let_def empty_db_def sample_message_def filter_map o_def)

lemma reply_fetch_returns_every_pending_message:
  "faults d = [] \<Longrightarrow>
   fst (SendResponsesToQueue_fetch d)
     = Inr (filter (\<lambda>m. msg_Processed m \<and> \<not> msg_Replied m) (messages d))"
  by (simp add: SendResponsesToQueue_fetch_def gorm_Find_def gorm_Where_def gorm_Limit_def
      db_call_def Let_def)

section \<open>A datastore without faults\<close>

text \<open>
  With no fault pending, every gorm call returns the store it was given and its result is
  a function of the tables alone.
\<close>

lemma db_call_healthy: "faults d = [] \<Longrightarrow> db_call d = (None, d)"
  by (simp add: db_call_def)

lemma find_sort_key_None:
  "find p (sort_key k rows) = None \<longleftrightarrow> (\<forall>x\<in>set rows. \<not> p x)"
  by (auto simp: find_None_iff)

lemma find_sort_key_Some:
  "find p (sort_key k rows) = Some r \<Longrightarrow> r \<in> set rows \<and> p r"
proof -
  assume f: "find p (sort_key k rows) = Some r"
  then obtain i where "i < length (sort_key k rows)" "p (sort_key k rows ! i)"
    "r = sort_key k rows ! i"
    unfolding find_Some_iff by blast
  then have "r \<in> set (sort_key k rows)" "p r"
    by (metis nth_mem)+
  then show ?thesis by simp
qed

lemma gorm_First_healthy:
  "faults d = [] \<Longrightarrow>
   gorm_First key p rows d =
     (case find p (sort_key key rows) of None \<Rightarrow> (Inl ErrRecordNotFound, d) | Some r \<Rightarrow> (Inr r, d))"
  by (simp add: gorm_First_def db_call_healthy)

lemma gorm_Create_healthy:
  "faults d = [] \<Longrightarrow>
   gorm_Create key r rows d =
     (if key r \<in> set (map key rows) then (Some (Err ''UNIQUE constraint failed''), rows, d)
      else (None, rows @ [r], d))"
  by (simp add: gorm_Create_def db_call_healthy)

lemma gorm_Save_healthy:
  "faults d = [] \<Longrightarrow>
   gorm_Save key r rows d =
     (if key r \<in> set (map key rows)
      then (None, map (\<lambda>x. if key x = key r then r else x) rows, d)
      else (None, rows @ [r], d))"
  by (simp add: gorm_Save_def db_call_healthy)

lemma gorm_Delete_healthy:
  "faults d = [] \<Longrightarrow> gorm_Delete p rows d = (None, filter (\<lambda>x. \<not> p x) rows, d)"
  by (simp add: gorm_Delete_def db_call_healthy)

lemma gorm_Pluck_healthy:
  "faults d = [] \<Longrightarrow> gorm_Pluck col rows d = (Inr (map col rows), d)"
  by (simp add: gorm_Pluck_def db_call_healthy)

lemma isTLSCertificateExist_healthy:
  "faults d = [] \<Longrightarrow>
   isTLSCertificateExist d i = (Inr (i \<in> set (map tls_ID (tls_certificates d))), d)"
proof (cases "find (\<lambda>c. tls_ID c = i) (sort_key tls_ID (tls_certificates d))")
  case None
  assume "faults d = []"
  with None show ?thesis
    using find_sort_key_None[of "\<lambda>c. tls_ID c = i" tls_ID "tls_certificates d"]
    by (auto simp: isTLSCertificateExist_def gorm_First_healthy)
next
  case (Some c)
  assume "faults d = []"
  with Some show ?thesis
    using find_sort_key_Some[OF Some]
    by (auto simp: isTLSCertificateExist_def gorm_First_healthy)
qed

section \<open>Listener rows are only added or collected\<close>

text \<open>
  No handler rewrites a listener row: \<open>upsertListener\<close> appends a row with a fresh id or
  leaves the table alone, every other function leaves it alone, and the orphan cleanup
  only filters it. This holds whatever faults the datastore raises.
\<close>

lemma rows_kept_refl [simp]: "rows_kept key rows rows"
  by (simp add: rows_kept_def)

lemma rows_kept_trans:
  "rows_kept key a b \<Longrightarrow> rows_kept key b c \<Longrightarrow> rows_kept key a c"
  by (auto simp: rows_kept_def)

lemma listeners_db_call [simp]: "listeners (snd (db_call d)) = listeners d"
  by (simp add: db_call_def split: list.split)

lemma listeners_gorm_First [simp]: "listeners (snd (gorm_First k p rows d)) = listeners d"
  by (simp add: gorm_First_def db_call_def split: list.split option.split)

lemma listeners_gorm_Create [simp]:
  "listeners (snd (snd (gorm_Create k r rows d))) = listeners d"
  by (simp add: gorm_Create_def db_call_def split: list.split option.split)

lemma listeners_gorm_Save [simp]:
  "listeners (snd (snd (gorm_Save k r rows d))) = listeners d"
  by (simp add: gorm_Save_def db_call_def split: list.split option.split)

lemma listeners_gorm_Delete [simp]:
  "listeners (snd (snd (gorm_Delete p rows d))) = listeners d"
  by (simp add: gorm_Delete_def db_call_def split: list.split option.split)

lemma listeners_gorm_Pluck [simp]: "listeners (snd (gorm_Pluck c rows d)) = listeners d"
  by (simp add: gorm_Pluck_def db_call_def split: list.split option.split)

lemma listeners_uuid [simp]: "listeners (snd (uuid_NewString d)) = listeners d"
  by (simp add: uuid_NewString_def)

lemma gorm_Create_rows:
  "fst (snd (gorm_Create k r rows d)) = rows
   \<or> (fst (snd (gorm_Create k r rows d)) = rows @ [r] \<and> k r \<notin> set (map k rows))"
  by (simp add: gorm_Create_def db_call_def split: list.split option.split)

lemma listeners_isListenerExist [simp]:
  "listeners (snd (isListenerExist d i)) = listeners d"
  by (simp add: isListenerExist_def case_prod_beta split: sum.split error.split)

lemma listeners_getListenerByID [simp]:
  "listeners (snd (getListenerByID d i)) = listeners d"
  by (simp add: getListenerByID_def)

lemma upsertListener_kept [simp]:
  "rows_kept lst_ID (listeners d) (listeners (snd (upsertListener d ip port pr tls)))"
proof -
  let ?i = "getListenerID ip port"
  let ?d1 = "snd (isListenerExist d ?i)"
  let ?l = "Listener_defaults \<lparr>lst_ID = ?i, lst_Protocol = pr, lst_IP = ip, lst_Port = port, lst_IsTLS = tls\<rparr>"
  have l1: "listeners ?d1 = listeners d" by simp
  from gorm_Create_rows[of lst_ID ?l "listeners ?d1" ?d1]
  show ?thesis
    unfolding rows_kept_def upsertListener_def Let_def
    by (auto simp: case_prod_beta l1 split: sum.split bool.split option.split)
qed

lemma listeners_findHTTPRedirectRule [simp]:
  "listeners (snd (findHTTPRedirectRule d a b c e)) = listeners d"
  by (simp add: findHTTPRedirectRule_def Let_def case_prod_beta split: sum.split error.split)

lemma listeners_upsertHTTPRedirectRule [simp]:
  "listeners (snd (upsertHTTPRedirectRule d a b c e f g h i j)) = listeners d"
  by (simp add: upsertHTTPRedirectRule_def Let_def case_prod_beta
      split: sum.split option.split)

lemma listeners_deleteHTTPRedirectRule [simp]:
  "listeners (snd (deleteHTTPRedirectRule d a b c e)) = listeners d"
  by (simp add: deleteHTTPRedirectRule_def Let_def case_prod_beta)

lemma listeners_findBackend [simp]:
  "listeners (snd (findBackend d a b c e f g)) = listeners d"
  by (simp add: findBackend_def Let_def case_prod_beta split: sum.split error.split)

lemma listeners_upsertBackend [simp]:
  "listeners (snd (upsertBackend d a b c e f g)) = listeners d"
  by (simp add: upsertBackend_def Let_def case_prod_beta split: sum.split option.split)

lemma listeners_findIngressRule [simp]:
  "listeners (snd (findIngressRule d a b c e)) = listeners d"
  by (simp add: findIngressRule_def Let_def case_prod_beta split: sum.split error.split)

lemma listeners_upsertIngressRule [simp]:
  "listeners (snd (upsertIngressRule d a b c e f g h i)) = listeners d"
  by (simp add: upsertIngressRule_def Let_def case_prod_beta split: sum.split option.split)

lemma listeners_deleteIngressRule [simp]:
  "listeners (snd (deleteIngressRule d a b c e)) = listeners d"
  by (simp add: deleteIngressRule_def Let_def case_prod_beta)

lemma listeners_isTLSCertificateExist [simp]:
  "listeners (snd (isTLSCertificateExist d i)) = listeners d"
  by (simp add: isTLSCertificateExist_def case_prod_beta split: sum.split error.split)

lemma listeners_TLSCertificateUpsert [simp]:
  "listeners (snd (TLSCertificateUpsertV1_Process L d r)) = listeners d"
  by (simp add: TLSCertificateUpsertV1_Process_def Let_def case_prod_beta
      split: sum.split option.split)

lemma listeners_TLSCertificateDelete [simp]:
  "listeners (snd (TLSCertificateDeleteV1_Process L d r)) = listeners d"
  by (simp add: TLSCertificateDeleteV1_Process_def Let_def case_prod_beta
      split: sum.split option.split bool.split)

lemma listeners_IngressRuleDelete [simp]:
  "listeners (snd (IngressRuleDeleteV1_Process L d r)) = listeners d"
  by (simp add: IngressRuleDeleteV1_Process_def Let_def case_prod_beta
      split: sum.split option.split)

lemma listeners_HTTPRedirectRuleDelete [simp]:
  "listeners (snd (HTTPRedirectRuleDeleteV1_Process L d r)) = listeners d"
  by (simp add: HTTPRedirectRuleDeleteV1_Process_def Let_def case_prod_beta
      split: sum.split option.split)

lemmas push_listeners =
  if_distrib[of "\<lambda>x. listeners (snd x)"]
  option.case_distrib[of "\<lambda>x. listeners (snd x)"]
  sum.case_distrib[of "\<lambda>x. listeners (snd x)"]

lemma IngressRuleUpsert_listeners:
  "listeners (snd (IngressRuleUpsertV1_Process L d r)) = listeners d
   \<or> listeners (snd (IngressRuleUpsertV1_Process L d r))
       = listeners (snd (upsertListener d (iu_BindIP r) (iu_Port r) (iu_Protocol r) (iu_IsTLS r)))"
  apply (simp add: IngressRuleUpsertV1_Process_def Let_def case_prod_beta push_listeners
      cong: if_cong option.case_cong sum.case_cong split del: if_split)
  apply (simp split: option.split sum.split)
  done

lemma IngressRuleUpsert_kept [simp]:
  "rows_kept lst_ID (listeners d) (listeners (snd (IngressRuleUpsertV1_Process L d r)))"
  using IngressRuleUpsert_listeners[of L d r]
    upsertListener_kept[of d "iu_BindIP r" "iu_Port r" "iu_Protocol r" "iu_IsTLS r"]
  by auto

lemma HTTPRedirectRuleUpsert_kept [simp]:
  "rows_kept lst_ID (listeners d) (listeners (snd (HTTPRedirectRuleUpsertV1_Process L d r)))"
  by (simp add: HTTPRedirectRuleUpsertV1_Process_def Let_def case_prod_beta
      split: sum.split option.split)

lemma Process_kept [simp]: "rows_kept lst_ID (listeners d) (listeners (snd (Process L d req)))"
  by (cases req) simp_all

lemma listeners_save_Message [simp]: "listeners (save_Message d m) = listeners d"
  by (simp add: save_Message_def case_prod_beta)

lemma processMessage_listeners:
  "listeners (processMessage L now d msg) = listeners d
   \<or> (\<exists>req. listeners (processMessage L now d msg) = listeners (snd (Process L d req)))"
  apply (simp add: processMessage_def Let_def case_prod_beta
      if_distrib[of listeners] option.case_distrib[of listeners] sum.case_distrib[of listeners]
      cong: if_cong option.case_cong sum.case_cong split del: if_split)
  apply (auto split: option.split sum.split)
  done

lemma processMessage_kept:
  "rows_kept lst_ID (listeners d) (listeners (processMessage L now d msg))"
  using processMessage_listeners[of L now d msg] Process_kept[of d L] by auto

lemma foldl_processMessage_kept:
  "rows_kept lst_ID (listeners d) (listeners (foldl (processMessage L now) d msgs))"
proof (induction msgs arbitrary: d)
  case Nil
  show ?case by simp
next
  case (Cons m msgs)
  show ?case
    using rows_kept_trans[OF processMessage_kept[of d L now m] Cons.IH] by simp
qed

lemma cleanup_listeners:
  "\<exists>P. listeners (snd (cleanupUnusedBackendsAndListeners d)) = filter P (listeners d)"
proof -
  have "listeners (snd (cleanupUnusedBackendsAndListeners d)) = listeners d
    \<or> (\<exists>P. listeners (snd (cleanupUnusedBackendsAndListeners d)) = filter P (listeners d))"
    apply (simp add: cleanupUnusedBackendsAndListeners_def Let_def case_prod_beta push_listeners
      cong: if_cong option.case_cong sum.case_cong split del: if_split)
    apply (auto simp: gorm_Delete_NotIn_def db_call_def split: option.split sum.split list.split)
    done
  then show ?thesis
  proof
    assume "listeners (snd (cleanupUnusedBackendsAndListeners d)) = listeners d"
    then have "listeners (snd (cleanupUnusedBackendsAndListeners d))
        = filter (\<lambda>_. True) (listeners d)"
      by simp
    then show ?thesis by blast
  next
    assume "\<exists>P. listeners (snd (cleanupUnusedBackendsAndListeners d)) = filter P (listeners d)"
    then show ?thesis .
  qed
qed

lemma listeners_gorm_Find [simp]: "listeners (snd (gorm_Find q rows d)) = listeners d"
  by (simp add: gorm_Find_def db_call_def Let_def split: list.split option.split)

lemma listeners_rollback [simp]: "listeners (rollback before tx) = listeners before"
  by (simp add: rollback_def)

lemma iteration_listeners:
  "listeners (fst (ProcessRequests_iteration L now d)) = listeners d
   \<or> (\<exists>tx. rows_kept lst_ID (listeners d) (listeners tx)
          \<and> listeners (fst (ProcessRequests_iteration L now d))
              = listeners (snd (cleanupUnusedBackendsAndListeners tx)))"
proof -
  let ?q = "gorm_Limit 100 (gorm_Order msg_QueuedAt (gorm_Where (\<lambda>m. msg_Processed m = False)))"
  let ?f = "gorm_Find ?q (messages d) d"
  let ?tx = "\<lambda>msgs. foldl (processMessage L now) (snd ?f) msgs"
  let ?gc = "\<lambda>msgs. snd (cleanupUnusedBackendsAndListeners (?tx msgs))"
  have k: "rows_kept lst_ID (listeners d) (listeners (?tx msgs))" for msgs
    using foldl_processMessage_kept[of "snd ?f" L now] by simp
  have eq: "listeners (fst (ProcessRequests_iteration L now d)) =
      (case fst ?f of
         Inl e \<Rightarrow> listeners d
       | Inr msgs \<Rightarrow>
           if msgs = [] then listeners d
           else (case fst (db_call (?gc msgs)) of
                   None \<Rightarrow> listeners (?gc msgs)
                 | Some m \<Rightarrow> listeners d))"
    by (simp add: ProcessRequests_iteration_def Let_def case_prod_beta
        if_distrib[of "\<lambda>x. listeners (fst x)"] option.case_distrib[of "\<lambda>x. listeners (fst x)"]
        sum.case_distrib[of "\<lambda>x. listeners (fst x)"]
        cong: if_cong option.case_cong sum.case_cong split del: if_split)
  show ?thesis
  proof (cases "fst ?f")
    case (Inl e)
    with eq show ?thesis by simp
  next
    case (Inr msgs)
    show ?thesis
    proof (cases "msgs = [] \<or> fst (db_call (?gc msgs)) \<noteq> None")
      case True
      with eq Inr have "listeners (fst (ProcessRequests_iteration L now d)) = listeners d"
        by (auto split: option.split)
      then show ?thesis by simp
    next
      case False
      with eq Inr have "listeners (fst (ProcessRequests_iteration L now d)) = listeners (?gc msgs)"
        by simp
      with k[of msgs] show ?thesis by blast
    qed
  qed
qed

lemma iteration_listener_stable:
  assumes l: "l \<in> set (listeners d)" and dist: "distinct (map lst_ID (listeners d))"
  shows "distinct (map lst_ID (listeners (fst (ProcessRequests_iteration L now d))))
     \<and> (\<forall>l'\<in>set (listeners (fst (ProcessRequests_iteration L now d))).
            lst_ID l' = lst_ID l \<longrightarrow> l' = l)"
proof -
  let ?res = "listeners (fst (ProcessRequests_iteration L now d))"
  from iteration_listeners[of L now d]
  consider (same) "?res = listeners d"
    | (gc) tx where "rows_kept lst_ID (listeners d) (listeners tx)"
        "?res = listeners (snd (cleanupUnusedBackendsAndListeners tx))"
    by blast
  then show ?thesis
  proof cases
    case same
    with l dist show ?thesis
      by (auto simp: distinct_map dest: inj_onD)
  next
    case gc
    from gc(1) dist l have dtx: "distinct (map lst_ID (listeners tx))" and ltx: "l \<in> set (listeners tx)"
      by (auto simp: rows_kept_def)
    from cleanup_listeners[of tx] gc(2) obtain P where P: "?res = filter P (listeners tx)"
      by auto
    have "distinct (map lst_ID ?res)"
      unfolding P using dtx by (simp add: distinct_map_filter)
    moreover have "\<forall>l'\<in>set ?res. lst_ID l' = lst_ID l \<longrightarrow> l' = l"
      unfolding P using dtx ltx by (auto simp: distinct_map dest: inj_onD)
    ultimately show ?thesis by blast
  qed
qed

lemma find_by_id_distinct:
  assumes "l \<in> set rows" "distinct (map key rows)"
  shows "find (\<lambda>x. key x = key l) (sort_key key rows) = Some l"
proof (cases "find (\<lambda>x. key x = key l) (sort_key key rows)")
  case None
  with assms(1) show ?thesis
    using find_sort_key_None[of "\<lambda>x. key x = key l" key rows] by auto
next
  case (Some x)
  from find_sort_key_Some[OF Some] have "x \<in> set rows" "key x = key l" by auto
  with assms have "x = l" by (auto simp: distinct_map dest: inj_onD)
  with Some show ?thesis by simp
qed

lemma upsertListener_conflict:
  assumes h: "faults d = []" and l: "l \<in> set (listeners d)"
    and dist: "distinct (map lst_ID (listeners d))"
    and i: "lst_ID l = getListenerID ip port"
    and c: "lst_Protocol l \<noteq> pr \<or> lst_IsTLS l \<noteq> tls"
  shows "\<exists>m. upsertListener d ip port pr tls = (Inl (Err (m @ release_hint)), d)"
proof -
  have f: "find (\<lambda>x. lst_ID x = getListenerID ip port) (sort_key lst_ID (listeners d)) = Some l"
    using find_by_id_distinct[OF l dist] i by simp
  have e: "isListenerExist d (getListenerID ip port) = (Inr True, d)"
    by (simp add: isListenerExist_def gorm_First_healthy[OF h] f)
  have g: "getListenerByID d (getListenerID ip port) = (Inr l, d)"
    by (simp add: getListenerByID_def gorm_First_healthy[OF h] f)
  show ?thesis
  proof (cases "lst_Protocol l \<noteq> pr")
    case True
    then have "upsertListener d ip port pr tls =
      (Inl (Err ((''listener registered on '' @ getListenerID ip port @ '' is using ''
             @ lst_Protocol l
             @ '' protocol, but currently requesting the same listener for ''
             @ pr @ '' protocol. '') @ release_hint)), d)"
      by (simp add: upsertListener_def Let_def e g)
    then show ?thesis by blast
  next
    case False
    with c have t: "lst_IsTLS l \<noteq> tls" by simp
    show ?thesis
    proof (cases "lst_IsTLS l")
      case True
      with False t have "upsertListener d ip port pr tls =
        (Inl (Err ((''listener registered on '' @ getListenerID ip port
               @ '' is using TLS, but currently requesting the same listener for non-TLS. '')
               @ release_hint)), d)"
        by (simp add: upsertListener_def Let_def e g)
      then show ?thesis by blast
    next
      case F: False
      with False t have "upsertListener d ip port pr tls =
        (Inl (Err ((''listener registered on '' @ getListenerID ip port
               @ '' is using non-TLS, but currently requesting the same listener for TLS. '')
               @ release_hint)), d)"
        by (simp add: upsertListener_def Let_def e g)
      then show ?thesis by blast
    qed
  qed
qed

section \<open>A healthy datastore stays healthy\<close>

lemma faults_gorm_First [simp]: "faults d = [] \<Longrightarrow> faults (snd (gorm_First k p rows d)) = []"
  by (simp add: gorm_First_healthy split: option.split)

lemma faults_gorm_Create [simp]:
  "faults d = [] \<Longrightarrow> faults (snd (snd (gorm_Create k r rows d))) = []"
  by (simp add: gorm_Create_healthy)

lemma faults_gorm_Save [simp]:
  "faults d = [] \<Longrightarrow> faults (snd (snd (gorm_Save k r rows d))) = []"
  by (simp add: gorm_Save_healthy)

lemma faults_gorm_Delete [simp]:
  "faults d = [] \<Longrightarrow> faults (snd (snd (gorm_Delete p rows d))) = []"
  by (simp add: gorm_Delete_healthy)

lemma faults_uuid [simp]: "faults (snd (uuid_NewString d)) = faults d"
  by (simp add: uuid_NewString_def)

lemma case_sum_same [simp]: "(case x of Inl a \<Rightarrow> c | Inr b \<Rightarrow> c) = c"
  by (cases x) simp_all

lemma case_option_same [simp]: "(case x of None \<Rightarrow> c | Some b \<Rightarrow> c) = c"
  by (cases x) simp_all

lemma case_error_same [simp]: "(case x of ErrRecordNotFound \<Rightarrow> c | Err m \<Rightarrow> c) = c"
  by (cases x) simp_all

lemma case_bool_same [simp]: "(case x of True \<Rightarrow> c | False \<Rightarrow> c) = c"
  by (cases x) simp_all

lemmas push_faults =
  if_distrib[of "\<lambda>x. faults (snd x)"]
  option.case_distrib[of "\<lambda>x. faults (snd x)"]
  sum.case_distrib[of "\<lambda>x. faults (snd x)"]
  bool.case_distrib[of "\<lambda>x. faults (snd x)"]
  error.case_distrib[of "\<lambda>x. faults (snd x)"]

lemma faults_isListenerExist [simp]:
  "faults d = [] \<Longrightarrow> faults (snd (isListenerExist d i)) = []"
  by (simp add: isListenerExist_def case_prod_beta push_faults
      cong: if_cong option.case_cong sum.case_cong error.case_cong split del: if_split)

lemma faults_getListenerByID [simp]:
  "faults d = [] \<Longrightarrow> faults (snd (getListenerByID d i)) = []"
  by (simp add: getListenerByID_def)

lemma faults_upsertListener [simp]:
  "faults d = [] \<Longrightarrow> faults (snd (upsertListener d ip port pr tls)) = []"
  by (simp add: upsertListener_def Let_def case_prod_beta push_faults
      cong: if_cong option.case_cong sum.case_cong bool.case_cong split del: if_split)

lemma faults_findHTTPRedirectRule [simp]:
  "faults d = [] \<Longrightarrow> faults (snd (findHTTPRedirectRule d a b c e)) = []"
  by (simp add: findHTTPRedirectRule_def Let_def case_prod_beta push_faults
      cong: if_cong option.case_cong sum.case_cong error.case_cong split del: if_split)

lemma faults_upsertHTTPRedirectRule [simp]:
  "faults d = [] \<Longrightarrow> faults (snd (upsertHTTPRedirectRule d a b c e f g h i j)) = []"
  by (simp add: upsertHTTPRedirectRule_def Let_def case_prod_beta push_faults
      cong: if_cong option.case_cong sum.case_cong split del: if_split)

lemma faults_deleteHTTPRedirectRule [simp]:
  "faults d = [] \<Longrightarrow> faults (snd (deleteHTTPRedirectRule d a b c e)) = []"
  by (simp add: deleteHTTPRedirectRule_def Let_def case_prod_beta)

lemma faults_findBackend [simp]:
  "faults d = [] \<Longrightarrow> faults (snd (findBackend d a b c e f g)) = []"
  by (simp add: findBackend_def Let_def case_prod_beta push_faults
      cong: if_cong option.case_cong sum.case_cong error.case_cong split del: if_split)

lemma faults_upsertBackend [simp]:
  "faults d = [] \<Longrightarrow> faults (snd (upsertBackend d a b c e f g)) = []"
  by (simp add: upsertBackend_def Let_def case_prod_beta push_faults
      cong: if_cong option.case_cong sum.case_cong split del: if_split)

lemma faults_findIngressRule [simp]:
  "faults d = [] \<Longrightarrow> faults (snd (findIngressRule d a b c e)) = []"
  by (simp add: findIngressRule_def Let_def case_prod_beta push_faults
      cong: if_cong option.case_cong sum.case_cong error.case_cong split del: if_split)

lemma faults_upsertIngressRule [simp]:
  "faults d = [] \<Longrightarrow> faults (snd (upsertIngressRule d a b c e f g h i)) = []"
  by (simp add: upsertIngressRule_def Let_def case_prod_beta push_faults
      cong: if_cong option.case_cong sum.case_cong split del: if_split)

lemma faults_deleteIngressRule [simp]:
  "faults d = [] \<Longrightarrow> faults (snd (deleteIngressRule d a b c e)) = []"
  by (simp add: deleteIngressRule_def Let_def case_prod_beta)

lemma faults_isTLSCertificateExist [simp]:
  "faults d = [] \<Longrightarrow> faults (snd (isTLSCertificateExist d i)) = []"
  by (simp add: isTLSCertificateExist_healthy)

lemma faults_TLSCertificateUpsert [simp]:
  "faults d = [] \<Longrightarrow> faults (snd (TLSCertificateUpsertV1_Process L d r)) = []"
  by (simp add: TLSCertificateUpsertV1_Process_def Let_def case_prod_beta push_faults
      if_distrib[of "\<lambda>x. faults (snd (snd x))"]
      cong: if_cong option.case_cong sum.case_cong split del: if_split)

lemma faults_TLSCertificateDelete [simp]:
  "faults d = [] \<Longrightarrow> faults (snd (TLSCertificateDeleteV1_Process L d r)) = []"
  by (simp add: TLSCertificateDeleteV1_Process_def Let_def case_prod_beta push_faults
      cong: if_cong option.case_cong sum.case_cong bool.case_cong split del: if_split)

lemma faults_IngressRuleUpsert [simp]:
  "faults d = [] \<Longrightarrow> faults (snd (IngressRuleUpsertV1_Process L d r)) = []"
  by (simp add: IngressRuleUpsertV1_Process_def Let_def case_prod_beta push_faults
      cong: if_cong option.case_cong sum.case_cong split del: if_split)

lemma faults_IngressRuleDelete [simp]:
  "faults d = [] \<Longrightarrow> faults (snd (IngressRuleDeleteV1_Process L d r)) = []"
  by (simp add: IngressRuleDeleteV1_Process_def Let_def case_prod_beta push_faults
      cong: if_cong option.case_cong sum.case_cong split del: if_split)

lemma faults_HTTPRedirectRuleUpsert [simp]:
  "faults d = [] \<Longrightarrow> faults (snd (HTTPRedirectRuleUpsertV1_Process L d r)) = []"
  by (simp add: HTTPRedirectRuleUpsertV1_Process_def Let_def case_prod_beta push_faults
      cong: if_cong option.case_cong sum.case_cong split del: if_split)

lemma faults_HTTPRedirectRuleDelete [simp]:
  "faults d = [] \<Longrightarrow> faults (snd (HTTPRedirectRuleDeleteV1_Process L d r)) = []"
  by (simp add: HTTPRedirectRuleDeleteV1_Process_def Let_def case_prod_beta push_faults
      cong: if_cong option.case_cong sum.case_cong split del: if_split)

lemma faults_Process [simp]: "faults d = [] \<Longrightarrow> faults (snd (Process L d req)) = []"
  by (cases req) simp_all

lemma faults_save_Message [simp]: "faults d = [] \<Longrightarrow> faults (save_Message d m) = []"
  by (simp add: save_Message_def case_prod_beta)

lemma faults_processMessage [simp]:
  "faults d = [] \<Longrightarrow> faults (processMessage L now d msg) = []"
  by (simp add: processMessage_def Let_def case_prod_beta
      if_distrib[of faults] option.case_distrib[of faults] sum.case_distrib[of faults]
      cong: if_cong option.case_cong sum.case_cong split del: if_split)

lemma faults_foldl_processMessage:
  "faults d = [] \<Longrightarrow> faults (foldl (processMessage L now) d msgs) = []"
  by (induction msgs arbitrary: d) simp_all

section \<open>Orphan cleanup at the end of a batch\<close>

lemma uniqueSortedStrings_set [simp]: "set (uniqueSortedStrings s) = set s"
  by (simp add: uniqueSortedStrings_def)

lemma sort_Nil_iff: "sort_key f s = [] \<longleftrightarrow> s = []"
  by (metis length_0_conv length_sort)

lemma uniqueSortedStrings_Nil [simp]: "uniqueSortedStrings s = [] \<longleftrightarrow> s = []"
  by (simp add: uniqueSortedStrings_def sort_Nil_iff)

lemma cleanup_result:
  "case cleanupUnusedBackendsAndListeners d of
     (Some e, d') \<Rightarrow> True
   | (None, d') \<Rightarrow>
       ingress_rules d' = ingress_rules d
       \<and> http_redirect_rules d' = http_redirect_rules d
       \<and> backends d' = (if ingress_rules d = [] then backends d
                        else filter (backend_referenced d) (backends d))
       \<and> listeners d' = (if ingress_rules d = [] \<and> http_redirect_rules d = [] then listeners d
                         else filter (listener_referenced d) (listeners d))"
  by (auto simp: cleanupUnusedBackendsAndListeners_def gorm_Pluck_def gorm_Delete_NotIn_def
      db_call_def Let_def backend_referenced_def[abs_def] listener_referenced_def[abs_def]
      split: list.split option.split)

lemma cleanup_succeeded:
  assumes ok: "fst (cleanupUnusedBackendsAndListeners d) = None"
  shows "ingress_rules (snd (cleanupUnusedBackendsAndListeners d)) = ingress_rules d"
    and "http_redirect_rules (snd (cleanupUnusedBackendsAndListeners d)) = http_redirect_rules d"
    and "backends (snd (cleanupUnusedBackendsAndListeners d)) =
          (if ingress_rules d = [] then backends d
           else filter (backend_referenced d) (backends d))"
    and "listeners (snd (cleanupUnusedBackendsAndListeners d)) =
          (if ingress_rules d = [] \<and> http_redirect_rules d = [] then listeners d
           else filter (listener_referenced d) (listeners d))"
  using ok cleanup_result[of d]
  by (cases "cleanupUnusedBackendsAndListeners d"; simp)+

lemma gorm_Find_batch:
  "gorm_Find (gorm_Limit 100 (gorm_Order msg_QueuedAt (gorm_Where (\<lambda>m. \<not> msg_Processed m))))
     (messages d) d =
   (case fst (db_call d) of
      Some m \<Rightarrow> (Inl (Err m), snd (db_call d))
    | None \<Rightarrow> (Inr (batch_of d), snd (db_call d)))"
  by (simp add: gorm_Find_def gorm_Limit_def gorm_Order_def gorm_Where_def Let_def batch_of_def
      case_prod_beta split: option.split)

lemma tables_db_call [simp]:
  "ingress_rules (snd (db_call d)) = ingress_rules d"
  "http_redirect_rules (snd (db_call d)) = http_redirect_rules d"
  "backends (snd (db_call d)) = backends d"
  "listeners (snd (db_call d)) = listeners d"
  by (simp_all add: db_call_def split: list.split)

lemma iteration_committed:
  assumes c: "ProcessRequests_iteration L now d = (d', True, err)"
  shows "fst (cleanupUnusedBackendsAndListeners
                (foldl (processMessage L now) (snd (db_call d)) (batch_of d))) = err
       \<and> d' = snd (db_call (snd (cleanupUnusedBackendsAndListeners
                (foldl (processMessage L now) (snd (db_call d)) (batch_of d)))))"
  using c
  by (simp add: ProcessRequests_iteration_def gorm_Find_batch Let_def case_prod_beta
      split: option.splits if_splits)

text \<open>
  C1 (as the code has it). The claim reads: after every committed batch every Listener is
  referenced by an IngressRule or an HTTPRedirectRule and every Backend by an
  IngressRule. \<open>cleanupUnusedBackendsAndListeners\<close> deletes the unreferenced backends only
  \<open>if len(allBackendIDs) > 0\<close> and the unreferenced listeners only
  \<open>if len(allListenerIDs) > 0\<close>, and \<open>ProcessRequests\<close> commits the batch also when the
  cleanup returned an error, which it prints. So, whatever faults the datastore raised
  during the pass, after a committed batch whose cleanup returned no error: if at least one
  ingress rule is left, every Backend is referenced by an ingress rule; if at least one
  ingress or redirect rule is left, every Listener is referenced by one; the cleanup
  leaves the rules as the handlers left them, keeps every referenced row, and when no
  rule is left to reference a backend (a listener), the backends (the listeners) are
  those the handlers left, none deleted.
\<close>

theorem orphan_gc_after_commit:
  assumes c: "ProcessRequests_iteration L now d = (d', True, None)"
  shows "(ingress_rules d' \<noteq> [] \<longrightarrow> list_all (backend_referenced d') (backends d'))
       \<and> (ingress_rules d' \<noteq> [] \<or> http_redirect_rules d' \<noteq> []
            \<longrightarrow> list_all (listener_referenced d') (listeners d'))
       \<and> (\<exists>tx. tx = foldl (processMessage L now) (snd (db_call d)) (batch_of d)
             \<and> ingress_rules d' = ingress_rules tx
             \<and> http_redirect_rules d' = http_redirect_rules tx
             \<and> backends d' = (if ingress_rules d' = [] then backends tx
                              else filter (backend_referenced d') (backends tx))
             \<and> listeners d' = (if ingress_rules d' = [] \<and> http_redirect_rules d' = []
                               then listeners tx
                               else filter (listener_referenced d') (listeners tx)))"
proof -
  let ?tx = "foldl (processMessage L now) (snd (db_call d)) (batch_of d)"
  from iteration_committed[OF c]
  have ok: "fst (cleanupUnusedBackendsAndListeners ?tx) = None"
    and d': "d' = snd (db_call (snd (cleanupUnusedBackendsAndListeners ?tx)))"
    by simp_all
  note gc = cleanup_succeeded[OF ok]
  have i: "ingress_rules d' = ingress_rules ?tx"
    and r: "http_redirect_rules d' = http_redirect_rules ?tx"
    by (simp_all add: d' gc)
  have refb: "backend_referenced d' = backend_referenced ?tx"
    by (rule ext) (simp add: backend_referenced_def i)
  have refl: "listener_referenced d' = listener_referenced ?tx"
    by (rule ext) (simp add: listener_referenced_def i r)
  have b: "backends d' = (if ingress_rules d' = [] then backends ?tx
                          else filter (backend_referenced d') (backends ?tx))"
    unfolding refb i by (simp add: d' gc)
  have l: "listeners d' = (if ingress_rules d' = [] \<and> http_redirect_rules d' = []
                           then listeners ?tx
                           else filter (listener_referenced d') (listeners ?tx))"
    unfolding refl i r by (simp add: d' gc)
  have 1: "ingress_rules d' \<noteq> [] \<longrightarrow> list_all (backend_referenced d') (backends d')"
  proof
    assume n: "ingress_rules d' \<noteq> []"
    with b have "backends d' = filter (backend_referenced d') (backends ?tx)" by simp
    then show "list_all (backend_referenced d') (backends d')"
      by (simp add: list_all_iff)
  qed
  have 2: "ingress_rules d' \<noteq> [] \<or> http_redirect_rules d' \<noteq> []
            \<longrightarrow> list_all (listener_referenced d') (listeners d')"
  proof
    assume n: "ingress_rules d' \<noteq> [] \<or> http_redirect_rules d' \<noteq> []"
    with l have "listeners d' = filter (listener_referenced d') (listeners ?tx)" by auto
    then show "list_all (listener_referenced d') (listeners d')"
      by (simp add: list_all_iff)
  qed
  from i r b l have 3: "\<exists>tx. tx = ?tx
             \<and> ingress_rules d' = ingress_rules tx
             \<and> http_redirect_rules d' = http_redirect_rules tx
             \<and> backends d' = (if ingress_rules d' = [] then backends tx
                              else filter (backend_referenced d') (backends tx))
             \<and> listeners d' = (if ingress_rules d' = [] \<and> http_redirect_rules d' = []
                               then listeners tx
                               else filter (listener_referenced d') (listeners tx))"
    by simp
  show ?thesis by (rule conjI[OF 1 conjI[OF 2 3]])
qed

lemmas gc_defs = ProcessRequests_iteration_def cleanupUnusedBackendsAndListeners_def
  gorm_Find_def gorm_Where_def gorm_Order_def gorm_Limit_def uniqueSortedStrings_def
  rollback_def no_orphans_def listener_referenced_def backend_referenced_def

lemmas rule_sample_defs = sample_delete_def rules_lib_def upsert_message_def delete_message_def

lemma digits_0: "digits 0 = ''0''"
  by (simp add: digits.simps)

lemma digits_1: "digits (Suc 0) = ''1''"
  by (simp add: digits.simps)

lemma digits_81: "digits 81 = ''81''"
  by (simp add: digits.simps)

lemma sort_b_a: "sort [''b'', ''a''] = [''a'', ''b'']"
  by code_simp

lemmas store_sample_defs = listener_80_def db_with_rule_def

lemmas eval_all = gc_defs message_defs store_defs listener_defs ingress_defs domain_defs
      sample_defs rule_sample_defs store_sample_defs digits_80 digits_0 sort_b_a Errorf_w_def

lemma batch_upsert:
  "ProcessRequests_iteration rules_lib 5 (empty_db\<lparr>messages := [upsert_message]\<rparr>)
     = (db_with_rule, True, None)"
  by (simp add: eval_all)

lemma batch_delete:
  "ProcessRequests_iteration rules_lib 6
      (db_with_rule\<lparr>messages := messages db_with_rule @ [delete_message]\<rparr>)
   = (db_with_rule\<lparr>messages := messages db_with_rule
          @ [delete_message\<lparr>msg_ProcessedAt := Some 6, msg_Success := True,
                              msg_Processed := True\<rparr>],
        ingress_rules := []\<rparr>, True, None)"
  by (simp add: eval_all)

text \<open>
  The claim as it reads fails on the scenario it names: an ingress rule is created in one
  batch and deleted in the next. The second batch commits, its cleanup returns no error,
  no rule is left, and the listener \<open>0.0.0.0:80\<close> and the backend \<open>uuid-0\<close> are still
  stored, referenced by nothing.
\<close>

theorem orphans_survive_deleting_last_rule:
  "fst (ProcessRequests_iteration rules_lib 5 (empty_db\<lparr>messages := [upsert_message]\<rparr>))
     = db_with_rule
   \<and> snd (ProcessRequests_iteration rules_lib 6
            (db_with_rule\<lparr>messages := messages db_with_rule @ [delete_message]\<rparr>))
         = (True, None)
   \<and> ingress_rules (fst (ProcessRequests_iteration rules_lib 6
            (db_with_rule\<lparr>messages := messages db_with_rule @ [delete_message]\<rparr>))) = []
   \<and> map lst_ID (listeners (fst (ProcessRequests_iteration rules_lib 6
            (db_with_rule\<lparr>messages := messages db_with_rule @ [delete_message]\<rparr>))))
         = [''0.0.0.0:80'']
   \<and> map bk_ID (backends (fst (ProcessRequests_iteration rules_lib 6
            (db_with_rule\<lparr>messages := messages db_with_rule @ [delete_message]\<rparr>))))
         = [''uuid-0'']
   \<and> \<not> no_orphans (fst (ProcessRequests_iteration rules_lib 6
            (db_with_rule\<lparr>messages := messages db_with_rule @ [delete_message]\<rparr>)))"
  unfolding batch_upsert batch_delete
  by (simp add: store_sample_defs empty_db_def no_orphans_def listener_referenced_def
      backend_referenced_def)

text \<open>
  A batch that satisfies the hypothesis and in which the cleanup has rows to collect. On
  the store with one rule (listener \<open>0.0.0.0:80\<close>, backend \<open>uuid-0\<close>) an upsert for port 81
  inserts the listener \<open>0.0.0.0:81\<close> and the backend \<open>uuid-1\<close>, and then the insert of its
  ingress rule fails. The handlers leave both new rows behind; the cleanup returns no
  error, the batch commits, and both rows are gone.
\<close>

lemmas half_written_defs = sample_ingress_81_def lib_81_def upsert_message_81_def
  db_before_81_def db_after_81_def batch_of_def digits_1 digits_81

lemma batch_half_written:
  "ProcessRequests_iteration lib_81 7 db_before_81 = (db_after_81, True, None)"
  by (simp add: eval_all half_written_defs)

lemma handlers_half_written:
  "map lst_ID (listeners (foldl (processMessage lib_81 7) (snd (db_call db_before_81))
       (batch_of db_before_81))) = [''0.0.0.0:80'', ''0.0.0.0:81'']
   \<and> map bk_ID (backends (foldl (processMessage lib_81 7) (snd (db_call db_before_81))
       (batch_of db_before_81))) = [''uuid-0'', ''uuid-1'']"
  by (simp add: eval_all half_written_defs)

theorem orphan_gc_after_commit_witness:
  "ProcessRequests_iteration lib_81 7 db_before_81 = (db_after_81, True, None)
   \<and> map lst_ID (listeners (foldl (processMessage lib_81 7) (snd (db_call db_before_81))
         (batch_of db_before_81))) = [''0.0.0.0:80'', ''0.0.0.0:81'']
   \<and> map bk_ID (backends (foldl (processMessage lib_81 7) (snd (db_call db_before_81))
         (batch_of db_before_81))) = [''uuid-0'', ''uuid-1'']
   \<and> ingress_rules db_after_81 \<noteq> []
   \<and> list_all (backend_referenced db_after_81) (backends db_after_81)
   \<and> list_all (listener_referenced db_after_81) (listeners db_after_81)
   \<and> map lst_ID (listeners db_after_81) = [''0.0.0.0:80'']
   \<and> map bk_ID (backends db_after_81) = [''uuid-0'']"
proof -
  have n: "ingress_rules db_after_81 \<noteq> []"
    by (simp add: db_after_81_def db_with_rule_def)
  have rows: "map lst_ID (listeners db_after_81) = [''0.0.0.0:80'']
      \<and> map bk_ID (backends db_after_81) = [''uuid-0'']"
    by (simp add: db_after_81_def db_with_rule_def listener_80_def empty_db_def)
  note gc = orphan_gc_after_commit[OF batch_half_written]
  have b: "list_all (backend_referenced db_after_81) (backends db_after_81)"
    by (rule mp[OF gc[THEN conjunct1] n])
  have l: "list_all (listener_referenced db_after_81) (listeners db_after_81)"
    by (rule mp[OF gc[THEN conjunct2, THEN conjunct1] disjI1[OF n]])
  from batch_half_written handlers_half_written n b l rows show ?thesis
    by simp
qed

text \<open>
  The hypothesis on the cleanup is needed. In the same batch let the first query of the
  cleanup fail as well: \<open>ProcessRequests\<close> prints the error and commits, and the listener
  \<open>0.0.0.0:81\<close> and the backend \<open>uuid-1\<close> stay in the store although a rule is left.
\<close>

lemma failed_cleanup_is_only_printed:
  "snd (ProcessRequests_iteration lib_81 7
       (db_before_81\<lparr>faults := faults db_before_81 @ [None, Some ''disk I/O error'']\<rparr>))
     = (True, Some (Err ''failed to get listener_id from Ingress Rule: disk I/O error''))
   \<and> map ir_ID (ingress_rules (fst (ProcessRequests_iteration lib_81 7
       (db_before_81\<lparr>faults := faults db_before_81 @ [None, Some ''disk I/O error'']\<rparr>))))
     = [''http:0.0.0.0:80:example.com:/'']
   \<and> map lst_ID (listeners (fst (ProcessRequests_iteration lib_81 7
       (db_before_81\<lparr>faults := faults db_before_81 @ [None, Some ''disk I/O error'']\<rparr>))))
     = [''0.0.0.0:80'', ''0.0.0.0:81'']
   \<and> map bk_ID (backends (fst (ProcessRequests_iteration lib_81 7
       (db_before_81\<lparr>faults := faults db_before_81 @ [None, Some ''disk I/O error'']\<rparr>))))
     = [''uuid-0'', ''uuid-1'']"
  by (simp add: eval_all half_written_defs)

text \<open>
  So is the bound on the number of ids: with more than \<open>SQLITE_MAX_VARIABLE_NUMBER\<close>
  distinct backend ids in use the delete of the unused backends fails on a datastore that
  raises no fault of its own.
\<close>

lemma cleanup_fails_on_many_ids:
  assumes "faults d = []"
    and "length (uniqueSortedStrings (map ir_BackendID (ingress_rules d)))
           > SQLITE_MAX_VARIABLE_NUMBER"
  shows "cleanupUnusedBackendsAndListeners d
           = (Some (Err ''failed to delete unused backends: too many SQL variables''), d)"
proof -
  from assms(2) have "ingress_rules d \<noteq> []"
    by (auto simp: uniqueSortedStrings_def)
  with assms show ?thesis
    by (simp add: cleanupUnusedBackendsAndListeners_def gorm_Pluck_healthy gorm_Delete_NotIn_def
        db_call_healthy Let_def Errorf_w_def)
qed

section \<open>Backend rows\<close>

lemma digits_443: "digits 443 = ''443''"
  by (simp add: digits.simps)

lemma sort_a_b: "sort [''a'', ''b''] = [''a'', ''b'']"
  by code_simp

text \<open>
  C9. Backends should be deduplicated structurally: hosts stored as a sorted JSON array,
  no two rows with the same (resolver_type, dns_resolver, hosts, port, is_tls, sni_domain),
  and two ingress upserts whose backend tuples differ only in host order sharing one row.
  Two runs, each of two upserts on the empty store, end with two Backend rows.
  First run: both requests leave \<open>backend_resolver\<close> empty. \<open>findBackend\<close> searches for
  \<open>resolver_type = ""\<close>, while \<open>Create\<close> stores the column default \<open>static\<close> for the empty
  value, so the second request finds nothing and inserts a second row with the same
  tuple. Second run: the requests have the same \<open>backend_*\<close> fields up to host order
  (\<open>backend_is_tls\<close> false in both) and differ in the listener (port 80 without TLS, port
  443 with TLS). \<open>IngressRuleUpsertV1.Process\<close> passes \<open>r.IsTLS\<close>, not \<open>r.BackendIsTLS\<close>, to
  \<open>upsertBackend\<close>, so the backend of the second request is stored with \<open>is_tls = true\<close>
  as a row of its own.
\<close>

theorem backend_rows_not_deduplicated:
  "map (\<lambda>b. (bk_ID b, bk_ResolverType b, bk_DNSResolver b, bk_Hosts b, bk_Port b, bk_IsTLS b,
             bk_SNIDomain b))
      (backends (snd (IngressRuleUpsertV1_Process sample_lib
         (snd (IngressRuleUpsertV1_Process sample_lib empty_db
                 (sample_ingress\<lparr>iu_BackendResolver := [], iu_BackendHosts := [''a'']\<rparr>)))
         (sample_ingress\<lparr>RequestID := ''i2'', iu_Domain := ''other.example.com'',
                          iu_BackendResolver := [], iu_BackendHosts := [''a'']\<rparr>))))
    = [(''uuid-0'', ''static'', [], JArr [JStr ''a''], 8080, False, []),
       (''uuid-1'', ''static'', [], JArr [JStr ''a''], 8080, False, [])]
   \<and> map (\<lambda>b. (bk_ID b, bk_ResolverType b, bk_DNSResolver b, bk_Hosts b, bk_Port b, bk_IsTLS b,
             bk_SNIDomain b))
      (backends (snd (IngressRuleUpsertV1_Process sample_lib
         (snd (IngressRuleUpsertV1_Process sample_lib empty_db sample_ingress))
         (sample_ingress\<lparr>RequestID := ''i2'', iu_Port := 443, iu_IsTLS := True,
                          iu_BackendHosts := [''a'', ''b'']\<rparr>))))
    = [(''uuid-0'', ''static'', [], JArr [JStr ''a'', JStr ''b''], 8080, False, []),
       (''uuid-1'', ''static'', [], JArr [JStr ''a'', JStr ''b''], 8080, True, [])]"
  by (simp add: eval_all digits_1 digits_443 sort_a_b)

text \<open>
  What does hold: the hosts column is always the array of a sorted list, and with a
  non-empty resolver type and one listener the second of two upserts that differ in host
  order reuses the row of the first.
\<close>

lemma StringList_Value_sorted:
  "\<exists>hs. StringList_Value s = JArr (map JStr hs) \<and> sorted hs \<and> set hs = set s
         \<and> length hs = length s"
  by (rule exI[of _ "sort s"]) (simp add: StringList_Value_def)

lemma backend_dedup_sample:
  "map (\<lambda>b. (bk_ID b, bk_Hosts b))
      (backends (snd (IngressRuleUpsertV1_Process sample_lib
         (snd (IngressRuleUpsertV1_Process sample_lib empty_db sample_ingress))
         (sample_ingress\<lparr>RequestID := ''i2'', iu_Domain := ''other.example.com'',
                          iu_BackendHosts := [''a'', ''b'']\<rparr>))))
    = [(''uuid-0'', JArr [JStr ''a'', JStr ''b''])]
   \<and> map ir_BackendID
      (ingress_rules (snd (IngressRuleUpsertV1_Process sample_lib
         (snd (IngressRuleUpsertV1_Process sample_lib empty_db sample_ingress))
         (sample_ingress\<lparr>RequestID := ''i2'', iu_Domain := ''other.example.com'',
                          iu_BackendHosts := [''a'', ''b'']\<rparr>))))
    = [''uuid-0'', ''uuid-0'']"
  by (simp add: eval_all digits_1 sort_a_b)

section \<open>Sticky listeners\<close>

lemma IngressRuleUpsert_conflict:
  assumes h: "faults d = []" and l: "l \<in> set (listeners d)"
    and dist: "distinct (map lst_ID (listeners d))"
    and i: "lst_ID l = getListenerID (iu_BindIP r) (iu_Port r)"
    and c: "lst_Protocol l \<noteq> iu_Protocol r \<or> lst_IsTLS l \<noteq> iu_IsTLS r"
  shows "\<exists>e. IngressRuleUpsertV1_Process L d r = (Inl e, d)
           \<and> ((\<exists>m. e = Err (m @ release_hint))
                \<or> (\<forall>d0. IngressRuleUpsertV1_Process L d0 r = (Inl e, d0)))"
proof -
  from upsertListener_conflict[OF h l dist i c] obtain m where
    "upsertListener d (iu_BindIP r) (iu_Port r) (iu_Protocol r) (iu_IsTLS r)
       = (Inl (Err (m @ release_hint)), d)" by blast
  note ul = this
  show ?thesis
    unfolding IngressRuleUpsertV1_Process_def Let_def ul
    by (simp add: Errorf_w_def split: option.split)
qed

lemma HTTPRedirectRuleUpsert_conflict:
  assumes h: "faults d = []" and l: "l \<in> set (listeners d)"
    and dist: "distinct (map lst_ID (listeners d))"
    and i: "lst_ID l = getListenerID (ru_BindIP r) (ru_Port r)"
    and c: "lst_Protocol l \<noteq> HTTP \<or> lst_IsTLS l \<noteq> ru_IsTLS r"
  shows "\<exists>e. HTTPRedirectRuleUpsertV1_Process L d r = (Inl e, d)
           \<and> ((\<exists>m. e = Err (m @ release_hint))
                \<or> (\<forall>d0. HTTPRedirectRuleUpsertV1_Process L d0 r = (Inl e, d0)))"
proof -
  from upsertListener_conflict[OF h l dist i c] obtain m where
    "upsertListener d (ru_BindIP r) (ru_Port r) HTTP (ru_IsTLS r)
       = (Inl (Err (m @ release_hint)), d)" by blast
  note ul = this
  show ?thesis
    unfolding HTTPRedirectRuleUpsertV1_Process_def Let_def ul
    by (simp add: Errorf_w_def split: option.split)
qed

text \<open>
  C8. For an existing Listener, \<open>protocol\<close> and \<open>is_tls\<close> never change. Let \<open>l\<close> be a row of
  a listeners table with unique ids. (1) Processing any message, under any faults, leaves
  \<open>l\<close> in the table and the ids unique. (2) After any pass of the processor (handlers,
  cleanup, commit or rollback) a listener with the id of \<open>l\<close> is \<open>l\<close> itself, and the ids
  are unique. (3) On a datastore without faults, \<open>upsertListener\<close> for the id of \<open>l\<close> with
  another protocol or another TLS flag returns an error that ends with the instruction to
  remove the existing rules, and leaves the store as it was. (4, 5) The ingress and the
  redirect upsert handlers then fail and leave the store as it was; their error is that
  of \<open>upsertListener\<close>, wrapped, unless the request is one that is refused on every
  store (it fails validation).
\<close>

theorem listener_protocol_and_tls_are_sticky:
  assumes l: "l \<in> set (listeners d)" and dist: "distinct (map lst_ID (listeners d))"
  shows "(\<forall>L now msg.
            l \<in> set (listeners (processMessage L now d msg))
            \<and> distinct (map lst_ID (listeners (processMessage L now d msg))))
       \<and> (\<forall>L now.
            distinct (map lst_ID (listeners (fst (ProcessRequests_iteration L now d))))
            \<and> (\<forall>l'\<in>set (listeners (fst (ProcessRequests_iteration L now d))).
                  lst_ID l' = lst_ID l \<longrightarrow> l' = l))
       \<and> (\<forall>ip port pr tls.
            faults d = [] \<and> lst_ID l = getListenerID ip port
            \<and> (lst_Protocol l \<noteq> pr \<or> lst_IsTLS l \<noteq> tls)
            \<longrightarrow> (\<exists>m. upsertListener d ip port pr tls = (Inl (Err (m @ release_hint)), d)))
       \<and> (\<forall>L r.
            faults d = [] \<and> lst_ID l = getListenerID (iu_BindIP r) (iu_Port r)
            \<and> (lst_Protocol l \<noteq> iu_Protocol r \<or> lst_IsTLS l \<noteq> iu_IsTLS r)
            \<longrightarrow> (\<exists>e. IngressRuleUpsertV1_Process L d r = (Inl e, d)
                   \<and> ((\<exists>m. e = Err (m @ release_hint))
                        \<or> (\<forall>d0. IngressRuleUpsertV1_Process L d0 r = (Inl e, d0)))))
       \<and> (\<forall>L r.
            faults d = [] \<and> lst_ID l = getListenerID (ru_BindIP r) (ru_Port r)
            \<and> (lst_Protocol l \<noteq> HTTP \<or> lst_IsTLS l \<noteq> ru_IsTLS r)
            \<longrightarrow> (\<exists>e. HTTPRedirectRuleUpsertV1_Process L d r = (Inl e, d)
                   \<and> ((\<exists>m. e = Err (m @ release_hint))
                        \<or> (\<forall>d0. HTTPRedirectRuleUpsertV1_Process L d0 r = (Inl e, d0)))))"
proof -
  have 1: "l \<in> set (listeners (processMessage L now d msg))
      \<and> distinct (map lst_ID (listeners (processMessage L now d msg)))" for L now msg
    using processMessage_kept[of d L now msg] l dist by (auto simp: rows_kept_def)
  have 2: "distinct (map lst_ID (listeners (fst (ProcessRequests_iteration L now d))))
      \<and> (\<forall>l'\<in>set (listeners (fst (ProcessRequests_iteration L now d))).
            lst_ID l' = lst_ID l \<longrightarrow> l' = l)" for L now
    by (rule iteration_listener_stable[OF l dist])
  have 3: "\<exists>m. upsertListener d ip port pr tls = (Inl (Err (m @ release_hint)), d)"
    if "faults d = []" "lst_ID l = getListenerID ip port"
       "lst_Protocol l \<noteq> pr \<or> lst_IsTLS l \<noteq> tls" for ip port pr tls
    using upsertListener_conflict[OF that(1) l dist that(2,3)] .
  have 4: "\<exists>e. IngressRuleUpsertV1_Process L d r = (Inl e, d)
           \<and> ((\<exists>m. e = Err (m @ release_hint))
                \<or> (\<forall>d0. IngressRuleUpsertV1_Process L d0 r = (Inl e, d0)))"
    if "faults d = []" "lst_ID l = getListenerID (iu_BindIP r) (iu_Port r)"
       "lst_Protocol l \<noteq> iu_Protocol r \<or> lst_IsTLS l \<noteq> iu_IsTLS r" for L r
    using IngressRuleUpsert_conflict[OF that(1) l dist that(2,3)] .
  have 5: "\<exists>e. HTTPRedirectRuleUpsertV1_Process L d r = (Inl e, d)
           \<and> ((\<exists>m. e = Err (m @ release_hint))
                \<or> (\<forall>d0. HTTPRedirectRuleUpsertV1_Process L d0 r = (Inl e, d0)))"
    if "faults d = []" "lst_ID l = getListenerID (ru_BindIP r) (ru_Port r)"
       "lst_Protocol l \<noteq> HTTP \<or> lst_IsTLS l \<noteq> ru_IsTLS r" for L r
    using HTTPRedirectRuleUpsert_conflict[OF that(1) l dist that(2,3)] .
  have c1: "\<forall>L now msg.
            l \<in> set (listeners (processMessage L now d msg))
            \<and> distinct (map lst_ID (listeners (processMessage L now d msg)))"
    by (intro allI) (rule 1)
  have c2: "\<forall>L now.
            distinct (map lst_ID (listeners (fst (ProcessRequests_iteration L now d))))
            \<and> (\<forall>l'\<in>set (listeners (fst (ProcessRequests_iteration L now d))).
                  lst_ID l' = lst_ID l \<longrightarrow> l' = l)"
    by (intro allI) (rule 2)
  have c3: "\<forall>ip port pr tls.
            faults d = [] \<and> lst_ID l = getListenerID ip port
            \<and> (lst_Protocol l \<noteq> pr \<or> lst_IsTLS l \<noteq> tls)
            \<longrightarrow> (\<exists>m. upsertListener d ip port pr tls = (Inl (Err (m @ release_hint)), d))"
    by (intro allI impI, elim conjE) (rule 3)
  have c4: "\<forall>L r.
            faults d = [] \<and> lst_ID l = getListenerID (iu_BindIP r) (iu_Port r)
            \<and> (lst_Protocol l \<noteq> iu_Protocol r \<or> lst_IsTLS l \<noteq> iu_IsTLS r)
            \<longrightarrow> (\<exists>e. IngressRuleUpsertV1_Process L d r = (Inl e, d)
                   \<and> ((\<exists>m. e = Err (m @ release_hint))
                        \<or> (\<forall>d0. IngressRuleUpsertV1_Process L d0 r = (Inl e, d0))))"
    by (intro allI impI, elim conjE) (rule 4)
  have c5: "\<forall>L r.
            faults d = [] \<and> lst_ID l = getListenerID (ru_BindIP r) (ru_Port r)
            \<and> (lst_Protocol l \<noteq> HTTP \<or> lst_IsTLS l \<noteq> ru_IsTLS r)
            \<longrightarrow> (\<exists>e. HTTPRedirectRuleUpsertV1_Process L d r = (Inl e, d)
                   \<and> ((\<exists>m. e = Err (m @ release_hint))
                        \<or> (\<forall>d0. HTTPRedirectRuleUpsertV1_Process L d0 r = (Inl e, d0))))"
    by (intro allI impI, elim conjE) (rule 5)
  show ?thesis
    by (rule conjI[OF c1 conjI[OF c2 conjI[OF c3 conjI[OF c4 c5]]]])
qed

theorem listener_protocol_and_tls_are_sticky_witness:
  "listener_80 \<in> set (listeners db_with_rule)
   \<and> distinct (map lst_ID (listeners db_with_rule))
   \<and> faults db_with_rule = []
   \<and> lst_ID listener_80 = getListenerID ''0.0.0.0'' 80
   \<and> (\<exists>m. upsertListener db_with_rule ''0.0.0.0'' 80 ''tcp'' False
             = (Inl (Err (m @ release_hint)), db_with_rule))
   \<and> listener_80 \<in> set (listeners (processMessage rules_lib 6 db_with_rule delete_message))"
proof -
  have a: "listener_80 \<in> set (listeners db_with_rule)"
    and b: "distinct (map lst_ID (listeners db_with_rule))"
    and c: "faults db_with_rule = []"
    and e: "lst_ID listener_80 = getListenerID ''0.0.0.0'' 80"
    and f: "lst_Protocol listener_80 \<noteq> ''tcp''"
    by (simp_all add: db_with_rule_def listener_80_def empty_db_def getListenerID_def
        Sprintf_d_def digits_80)
  note T = listener_protocol_and_tls_are_sticky[OF a b]
  note T1 = T[THEN conjunct1, rule_format]
  note T3 = T[THEN conjunct2, THEN conjunct2, THEN conjunct1, rule_format]
  have u: "\<exists>m. upsertListener db_with_rule ''0.0.0.0'' 80 ''tcp'' False
             = (Inl (Err (m @ release_hint)), db_with_rule)"
    by (rule T3[OF conjI[OF c conjI[OF e disjI1[OF f]]]])
  have p: "listener_80 \<in> set (listeners (processMessage rules_lib 6 db_with_rule delete_message))"
    by (rule T1[THEN conjunct1])
  show ?thesis
    by (rule conjI[OF a conjI[OF b conjI[OF c conjI[OF e conjI[OF u p]]]]])
qed

section \<open>The private key and the reply\<close>

text \<open>
  What \<open>TLSCertificateUpsertV1.Process\<close> does with the key, whatever the library functions,
  the request and the faults of the datastore. The reply of a successful upsert is the
  object of the five fields \<open>id\<close>, \<open>domain\<close>, \<open>is_wildcard\<close>, \<open>cert\<close> and \<open>expires_at\<close>,
  computed from the domain, the wildcard flag and the certificate of the request: it has
  no field for the key and no value taken from it. The row with the normalised key is in
  the table afterwards when the write (the second datastore call of the handler) raised
  no error; when it raised one, the handler still succeeds and the table is as it was.
\<close>

lemma isTLSCertificateExist_result:
  "isTLSCertificateExist d i =
     (case fst (db_call d) of
        Some m \<Rightarrow> (Inl (Err m), snd (db_call d))
      | None \<Rightarrow> (Inr (i \<in> set (map tls_ID (tls_certificates d))), snd (db_call d)))"
proof (cases "find (\<lambda>c. tls_ID c = i) (sort_key tls_ID (tls_certificates d))")
  case None
  then show ?thesis
    using find_sort_key_None[of "\<lambda>c. tls_ID c = i" tls_ID "tls_certificates d"]
    by (auto simp: isTLSCertificateExist_def gorm_First_def case_prod_beta split: option.split)
next
  case (Some c)
  then show ?thesis
    using find_sort_key_Some[OF Some]
    by (auto simp: isTLSCertificateExist_def gorm_First_def case_prod_beta split: option.split)
qed

lemma tls_certificates_db_call [simp]: "tls_certificates (snd (db_call d)) = tls_certificates d"
  by (simp add: db_call_def split: list.split)

lemma tls_reply_exact:
  "case TLSCertificateUpsertV1_Process L d r of
     (Inl e, d') \<Rightarrow> True
   | (Inr reply, d') \<Rightarrow>
       (\<exists>t. getCertExpiry L (ensure_trailing_newline (ReplaceAll_escaped_newline (tu_Cert r)))
               = Inr t
          \<and> reply = Some (JObj
              [(''id'', JStr (getTLSCertificateID (tu_Domain r) (tu_IsWildcard r))),
               (''domain'', JStr (tu_Domain r)),
               (''is_wildcard'', JBool (tu_IsWildcard r)),
               (''cert'', JStr (ensure_trailing_newline (ReplaceAll_escaped_newline (tu_Cert r)))),
               (''expires_at'', JTime t)]))"
  by (auto simp: TLSCertificateUpsertV1_Process_def Let_def case_prod_beta
      marshal_TLSCertificate_def split: sum.split option.split if_split)

lemma tls_row_stored_unless_write_fails:
  assumes w: "fst (db_call (snd (db_call d))) = None"
  shows "case TLSCertificateUpsertV1_Process L d r of
     (Inl e, d') \<Rightarrow> True
   | (Inr reply, d') \<Rightarrow>
       (\<exists>c\<in>set (tls_certificates d'). reply = Some (marshal_TLSCertificate c)
          \<and> tls_ID c = getTLSCertificateID (tu_Domain r) (tu_IsWildcard r)
          \<and> tls_Key c = ensure_trailing_newline (ReplaceAll_escaped_newline (tu_Key r)))"
  using w
  by (auto simp: TLSCertificateUpsertV1_Process_def Let_def isTLSCertificateExist_result
      gorm_Save_def gorm_Create_def case_prod_beta
      split: sum.split option.split if_split)

lemma tls_write_error_dropped:
  assumes w: "fst (db_call (snd (db_call d))) = Some m"
  shows "case TLSCertificateUpsertV1_Process L d r of
     (Inl e, d') \<Rightarrow> True
   | (Inr reply, d') \<Rightarrow> tls_certificates d' = tls_certificates d"
  using w
  by (auto simp: TLSCertificateUpsertV1_Process_def Let_def isTLSCertificateExist_result
      gorm_Save_def gorm_Create_def case_prod_beta
      split: sum.split option.split if_split)

text \<open>
  C10. Whenever \<open>tls_certificate.upsert\<close> succeeds, the reply should be the JSON of the
  stored certificate row without a field \<open>key\<close>: the key persisted, never echoed. The
  reply never carries the key (\<open>tls_reply_exact\<close>), but a successful upsert need not have
  stored it: the error of \<open>Save\<close>/\<open>Create\<close> is overwritten by the result of \<open>json.Marshal\<close>
  before it is read, as in C3. Run: an upsert of a matching pair, for which \<open>CERT\<close> and
  \<open>KEY\<close> stand, whose existence check succeeds and whose \<open>Create\<close> fails with a disk
  error. The handler returns the reply of a successful upsert, which the message row
  records with \<open>success = true\<close>, and the table holds no row: the key is stored nowhere.
\<close>

theorem tls_key_not_persisted_on_reported_success:
  "fst (TLSCertificateUpsertV1_Process sample_lib
          (empty_db\<lparr>faults := [None, Some ''disk I/O error'']\<rparr>) sample_tls)
     = Inr (Some (JObj [(''id'', JStr ''example.com''), (''domain'', JStr ''example.com''),
           (''is_wildcard'', JBool False), (''cert'', JStr (''CERT'' @ [CHR 0x0A])),
           (''expires_at'', JTime 1000)]))
   \<and> tls_certificates (snd (TLSCertificateUpsertV1_Process sample_lib
          (empty_db\<lparr>faults := [None, Some ''disk I/O error'']\<rparr>) sample_tls)) = []
   \<and> map msg_Success (messages (processMessage tls_lib 5
          (empty_db\<lparr>messages := [sample_message], faults := [None, Some ''disk I/O error'']\<rparr>)
          sample_message)) = [True]
   \<and> map msg_ResponsePayload (messages (processMessage tls_lib 5
          (empty_db\<lparr>messages := [sample_message], faults := [None, Some ''disk I/O error'']\<rparr>)
          sample_message))
       = [JObj [(''id'', JStr ''example.com''), (''domain'', JStr ''example.com''),
           (''is_wildcard'', JBool False), (''cert'', JStr (''CERT'' @ [CHR 0x0A])),
           (''expires_at'', JTime 1000)]]"
  by (simp add: store_defs tls_defs message_defs sample_defs)

text \<open>
  On the same request with a datastore that raises no fault the row is stored, with the
  key, and the reply is the same.
\<close>

lemma tls_upsert_sample:
  "TLSCertificateUpsertV1_Process sample_lib empty_db sample_tls =
     (Inr (Some (JObj [(''id'', JStr ''example.com''), (''domain'', JStr ''example.com''),
           (''is_wildcard'', JBool False), (''cert'', JStr (''CERT'' @ [CHR 0x0A])),
           (''expires_at'', JTime 1000)])),
      empty_db\<lparr>tls_certificates :=
        [\<lparr>tls_ID = ''example.com'', tls_Domain = ''example.com'', tls_IsWildcard = False,
          tls_Cert = ''CERT'' @ [CHR 0x0A], tls_Key = ''KEY'' @ [CHR 0x0A],
          tls_ExpiresAt = 1000\<rparr>]\<rparr>)"
  by (simp add: store_defs tls_defs sample_defs)

end
